theory Spec2Isabelle
  imports Complex_Main "HOL-Library.AList"
begin
section \<open>Errors\<close>

text \<open>
  Every failure of the two source files is a thrown exception. The model returns it as a
  value of a sum type (\<open>Inl\<close> the error). The kinds are those of the error taxonomy of the
  specification; \<open>OutOfRange\<close> is the \<open>std::out_of_range\<close> that \<open>std::map::at\<close> throws at a
  missing key and \<open>NullPointerDereference\<close> is a member access through an empty
  \<open>boost::shared_ptr\<close>.
\<close>

datatype error =
    InvalidSettings
  | InvalidLinkEndTopology
  | DimensionMismatch
  | MissingEnvironmentModel
  | UnrecognizedType
  | Unsupported
  | OutOfRange
  | NullPointerDereference

section \<open>The environment\<close>

text \<open>
  Modelled from the spec: the class hierarchy of gravity field models is declared outside
  the two source files. A gravity field model is a plain (point mass) model, a
  spherical-harmonic model, or the time-dependent specialization of the latter; the two
  \<open>dynamic_pointer_cast\<close>s of the source succeed accordingly.
\<close>

datatype GravityFieldModel =
    PointMassGravityField
  | SphericalHarmonicsGravityField
  | TimeDependentSphericalHarmonicsGravityField

fun castSphericalHarmonicsGravityField :: "GravityFieldModel option \<Rightarrow> GravityFieldModel option" where
  "castSphericalHarmonicsGravityField (Some SphericalHarmonicsGravityField) = Some SphericalHarmonicsGravityField"
| "castSphericalHarmonicsGravityField (Some TimeDependentSphericalHarmonicsGravityField) =
     Some TimeDependentSphericalHarmonicsGravityField"
| "castSphericalHarmonicsGravityField _ = None"

fun castTimeDependentSphericalHarmonicsGravityField ::
  "GravityFieldModel option \<Rightarrow> GravityFieldModel option" where
  "castTimeDependentSphericalHarmonicsGravityField (Some TimeDependentSphericalHarmonicsGravityField) =
     Some TimeDependentSphericalHarmonicsGravityField"
| "castTimeDependentSphericalHarmonicsGravityField _ = None"

text \<open>
  A body, as far as the two source files query it: each sub-model is either present or a
  null pointer. The radiation pressure interfaces are listed by the name of their source
  body (the keys of the map the body returns).
\<close>

record Body =
  getEphemeris :: bool
  getRotationalEphemeris :: bool
  getDependentOrientationCalculator :: bool
  getGravityFieldModel :: "GravityFieldModel option"
  getFlightConditions :: bool
  getRadiationPressureInterfaces :: "string list"
  getBodyMassFunction :: bool

text \<open>
  \<open>NamedBodyMap\<close>: the bodies by name, in the iteration order of the container. The keys of
  a \<open>std::map\<close> are pairwise distinct.
\<close>

type_synonym NamedBodyMap = "(string \<times> Body) list"

definition wellFormedBodyMap :: "NamedBodyMap \<Rightarrow> bool" where
  "wellFormedBodyMap bodyMap = distinct (map fst bodyMap)"

section \<open>Environment updates\<close>

text \<open>
  Modelled from the spec: the enumeration \<open>EnvironmentModelsToUpdate\<close> is declared outside
  the two source files. The specification names six facets: translational state,
  rotational state, spherical-harmonic gravity field, flight conditions, radiation-pressure
  interface and body mass. The source file spells seven identifiers: the six case labels
  of the switch in \<open>checkValidityOfRequiredEnvironmentUpdates\<close>, of which
  \<open>body_transational_state_update\<close> is also the key under which the acceleration resolver
  stores translational state updates, and \<open>body_translational_state_update\<close>, the key of
  the pruning function and of the dependent variable resolver. The model has one
  enumerator for each identifier, as the source spells them.
\<close>

datatype EnvironmentModelsToUpdate =
    body_transational_state_update
  | body_translational_state_update
  | body_rotational_state_update
  | body_mass_update
  | spherical_harmonic_gravity_field_update
  | vehicle_flight_conditions_update
  | radiation_pressure_interface_update

text \<open>
  \<open>std::map< EnvironmentModelsToUpdate, std::vector< std::string > >\<close>. A loop over the map
  visits the facets that have an entry, in the order of the enumeration; the list below
  fixes one order. The validator is the only loop over such a map in the source file, and
  all its failures are the same exception, so its outcome does not depend on the order.
\<close>

type_synonym EnvironmentUpdates = "EnvironmentModelsToUpdate \<rightharpoonup> string list"

definition allEnvironmentModelsToUpdate :: "EnvironmentModelsToUpdate list" where
  "allEnvironmentModelsToUpdate =
     [body_transational_state_update, body_translational_state_update,
      body_rotational_state_update, body_mass_update,
      spherical_harmonic_gravity_field_update, vehicle_flight_conditions_update,
      radiation_pressure_interface_update]"

text \<open>
  The body of the innermost loop of the validator: one facet and one body name. The switch
  has no case label \<open>body_translational_state_update\<close> and no default branch, so for
  that facet nothing but the presence of the body is checked.
\<close>

definition checkSingleUpdate ::
  "EnvironmentModelsToUpdate \<Rightarrow> NamedBodyMap \<Rightarrow> string \<Rightarrow> error + unit" where
  "checkSingleUpdate updateType bodyMap bodyName =
     (if bodyName \<noteq> [] then
        (case map_of bodyMap bodyName of
           None \<Rightarrow> Inl MissingEnvironmentModel
         | Some body \<Rightarrow>
            (case updateType of
               body_transational_state_update \<Rightarrow>
                 if \<not> getEphemeris body then Inl MissingEnvironmentModel else Inr ()
             | body_translational_state_update \<Rightarrow> Inr ()
             | body_rotational_state_update \<Rightarrow>
                 if \<not> getRotationalEphemeris body \<and> \<not> getDependentOrientationCalculator body
                 then Inl MissingEnvironmentModel else Inr ()
             | spherical_harmonic_gravity_field_update \<Rightarrow>
                 if castSphericalHarmonicsGravityField (getGravityFieldModel body) = None
                 then Inl MissingEnvironmentModel else Inr ()
             | vehicle_flight_conditions_update \<Rightarrow>
                 if \<not> getFlightConditions body then Inl MissingEnvironmentModel else Inr ()
             | radiation_pressure_interface_update \<Rightarrow>
                 if length (getRadiationPressureInterfaces body) = 0
                 then Inl MissingEnvironmentModel else Inr ()
             | body_mass_update \<Rightarrow>
                 if \<not> getBodyMassFunction body then Inl MissingEnvironmentModel else Inr ()))
      else Inr ())"

text \<open>The loop over the bodies of one facet.\<close>

fun checkUpdatedBodies ::
  "EnvironmentModelsToUpdate \<Rightarrow> NamedBodyMap \<Rightarrow> string list \<Rightarrow> error + unit" where
  "checkUpdatedBodies updateType bodyMap [] = Inr ()"
| "checkUpdatedBodies updateType bodyMap (bodyName # rest) =
     (case checkSingleUpdate updateType bodyMap bodyName of
        Inl e \<Rightarrow> Inl e
      | Inr _ \<Rightarrow> checkUpdatedBodies updateType bodyMap rest)"

text \<open>The loop over the facets.\<close>

fun checkUpdateTypes ::
  "EnvironmentModelsToUpdate list \<Rightarrow> EnvironmentUpdates \<Rightarrow> NamedBodyMap \<Rightarrow> error + unit" where
  "checkUpdateTypes [] requestedUpdates bodyMap = Inr ()"
| "checkUpdateTypes (updateType # rest) requestedUpdates bodyMap =
     (case requestedUpdates updateType of
        None \<Rightarrow> checkUpdateTypes rest requestedUpdates bodyMap
      | Some bodies \<Rightarrow>
         (case checkUpdatedBodies updateType bodyMap bodies of
            Inl e \<Rightarrow> Inl e
          | Inr _ \<Rightarrow> checkUpdateTypes rest requestedUpdates bodyMap))"

text \<open>
  \<open>checkValidityOfRequiredEnvironmentUpdates\<close>: both arguments are passed by constant
  reference and nothing is returned, so the only outcome is success or the exception.
\<close>

definition checkValidityOfRequiredEnvironmentUpdates ::
  "EnvironmentUpdates \<Rightarrow> NamedBodyMap \<Rightarrow> error + unit" where
  "checkValidityOfRequiredEnvironmentUpdates requestedUpdates bodyMap =
     checkUpdateTypes allEnvironmentModelsToUpdate requestedUpdates bodyMap"

text \<open>
  The requirement in the words of the specification: a body lacks the sub-model that a
  facet implies, which is the ephemeris for the translational state, the rotational
  ephemeris or the dependent orientation calculator for the rotational state, a
  spherical-harmonic gravity field, the flight conditions, at least one radiation pressure
  interface, and the body mass function. The translational state is the case label
  \<open>body_transational_state_update\<close>; the key \<open>body_translational_state_update\<close> is no case
  label and implies no sub-model.
\<close>

definition lacksRequiredModel :: "EnvironmentModelsToUpdate \<Rightarrow> Body \<Rightarrow> bool" where
  "lacksRequiredModel updateType body =
     (case updateType of
        body_transational_state_update \<Rightarrow> getEphemeris body = False
      | body_translational_state_update \<Rightarrow> False
      | body_rotational_state_update \<Rightarrow>
          getRotationalEphemeris body = False \<and> getDependentOrientationCalculator body = False
      | spherical_harmonic_gravity_field_update \<Rightarrow>
          getGravityFieldModel body = None \<or> getGravityFieldModel body = Some PointMassGravityField
      | vehicle_flight_conditions_update \<Rightarrow> getFlightConditions body = False
      | radiation_pressure_interface_update \<Rightarrow> getRadiationPressureInterfaces body = []
      | body_mass_update \<Rightarrow> getBodyMassFunction body = False)"

subsection \<open>Building and merging update maps\<close>

text \<open>\<open>updates[ updateType ].push_back( bodyName )\<close>: the entry is created when absent.\<close>

definition pushBackUpdate ::
  "EnvironmentUpdates \<Rightarrow> EnvironmentModelsToUpdate \<Rightarrow> string \<Rightarrow> EnvironmentUpdates" where
  "pushBackUpdate updates updateType bodyName =
     updates(updateType \<mapsto>
       (case updates updateType of None \<Rightarrow> [] | Some bodies \<Rightarrow> bodies) @ [bodyName])"

text \<open>
  Modelled from the spec: \<open>addEnvironmentUpdates\<close> is called by the source file but defined
  outside it. The specification's combinator (section 4.6): for every facet of the second
  map, its body list is appended to the list of the first map, the entry being created if
  absent; nothing is removed and duplicates are kept. The data model of the specification
  (section 3) speaks of merging with deduplication instead. The theorems below use the
  merged map only through which bodies are listed under a facet, never through how often
  a body is listed, so they hold for both readings.
\<close>

definition addEnvironmentUpdates ::
  "EnvironmentUpdates \<Rightarrow> EnvironmentUpdates \<Rightarrow> EnvironmentUpdates" where
  "addEnvironmentUpdates environmentUpdateList updatesToAdd =
     (\<lambda>updateType.
        case updatesToAdd updateType of
          None \<Rightarrow> environmentUpdateList updateType
        | Some bodies \<Rightarrow>
            Some ((case environmentUpdateList updateType of None \<Rightarrow> [] | Some present \<Rightarrow> present)
                  @ bodies))"

text \<open>The body list of a facet, empty when the facet has no entry.\<close>

definition updatedBodies :: "EnvironmentUpdates \<Rightarrow> EnvironmentModelsToUpdate \<Rightarrow> string list" where
  "updatedBodies updates updateType =
     (case updates updateType of None \<Rightarrow> [] | Some bodies \<Rightarrow> bodies)"

subsection \<open>Removing propagated states\<close>






subsection \<open>Updates required by torque models\<close>

text \<open>
  Modelled from the spec: \<open>AvailableTorque\<close> and \<open>getTorqueModelType\<close> are declared outside
  the two source files. The resolver knows the second-order gravitational and the
  aerodynamic torque; \<open>unrecognized_torque\<close> stands for any other value. A torque model is
  represented by the type that \<open>getTorqueModelType\<close> returns for it.
\<close>

datatype AvailableTorque =
    second_order_gravitational_torque
  | aerodynamic_torque
  | unrecognized_torque nat

type_synonym SingleBodyTorqueModelMap = "(string \<times> AvailableTorque list) list"

type_synonym TorqueModelMap = "(string \<times> SingleBodyTorqueModelMap) list"

text \<open>
  The loop over the torques that one body exerts on another. The default branch of the
  switch writes a message to \<open>std::cerr\<close> and leaves the switch.
\<close>

fun singleTorqueUpdateNeeds ::
  "string \<Rightarrow> string \<Rightarrow> AvailableTorque list \<Rightarrow> EnvironmentUpdates \<Rightarrow> EnvironmentUpdates" where
  "singleTorqueUpdateNeeds acceleratedBody exertingBody [] needs = needs"
| "singleTorqueUpdateNeeds acceleratedBody exertingBody (currentTorqueModelType # rest) needs =
     singleTorqueUpdateNeeds acceleratedBody exertingBody rest
       (case currentTorqueModelType of
          second_order_gravitational_torque \<Rightarrow> needs
        | aerodynamic_torque \<Rightarrow>
            pushBackUpdate (pushBackUpdate needs body_rotational_state_update exertingBody)
              vehicle_flight_conditions_update acceleratedBody
        | unrecognized_torque k \<Rightarrow> needs)"

fun torqueUpdatesOfExertingBodies ::
  "string \<Rightarrow> SingleBodyTorqueModelMap \<Rightarrow> NamedBodyMap \<Rightarrow> EnvironmentUpdates
     \<Rightarrow> error + EnvironmentUpdates" where
  "torqueUpdatesOfExertingBodies acceleratedBody [] bodyMap environmentModelsToUpdate =
     Inr environmentModelsToUpdate"
| "torqueUpdatesOfExertingBodies acceleratedBody ((exertingBody, torques) # rest) bodyMap
     environmentModelsToUpdate =
     (let needs = singleTorqueUpdateNeeds acceleratedBody exertingBody torques Map.empty in
      case checkValidityOfRequiredEnvironmentUpdates needs bodyMap of
        Inl e \<Rightarrow> Inl e
      | Inr _ \<Rightarrow>
          torqueUpdatesOfExertingBodies acceleratedBody rest bodyMap
            (addEnvironmentUpdates environmentModelsToUpdate needs))"

fun torqueUpdatesOfAcceleratedBodies ::
  "TorqueModelMap \<Rightarrow> NamedBodyMap \<Rightarrow> EnvironmentUpdates \<Rightarrow> error + EnvironmentUpdates" where
  "torqueUpdatesOfAcceleratedBodies [] bodyMap environmentModelsToUpdate =
     Inr environmentModelsToUpdate"
| "torqueUpdatesOfAcceleratedBodies ((acceleratedBody, exertingBodies) # rest) bodyMap
     environmentModelsToUpdate =
     (case torqueUpdatesOfExertingBodies acceleratedBody exertingBodies bodyMap
             environmentModelsToUpdate of
        Inl e \<Rightarrow> Inl e
      | Inr updated \<Rightarrow> torqueUpdatesOfAcceleratedBodies rest bodyMap updated)"

definition createRotationalEquationsOfMotionEnvironmentUpdaterSettings ::
  "TorqueModelMap \<Rightarrow> NamedBodyMap \<Rightarrow> error + EnvironmentUpdates" where
  "createRotationalEquationsOfMotionEnvironmentUpdaterSettings torqueModels bodyMap =
     torqueUpdatesOfAcceleratedBodies torqueModels bodyMap Map.empty"

subsection \<open>Updates required by translational acceleration models\<close>












subsection \<open>The brute-force update settings\<close>

text \<open>The loop over the radiation pressure interfaces of a body: one entry for each.\<close>

fun radiationPressureUpdateNeeds ::
  "string \<Rightarrow> string list \<Rightarrow> EnvironmentUpdates \<Rightarrow> EnvironmentUpdates" where
  "radiationPressureUpdateNeeds bodyName [] needs = needs"
| "radiationPressureUpdateNeeds bodyName (interface # rest) needs =
     radiationPressureUpdateNeeds bodyName rest
       (pushBackUpdate needs radiation_pressure_interface_update bodyName)"

text \<open>What one round of the loop over the bodies collects for the current body.\<close>

definition fullUpdateNeedsOfBody :: "string \<Rightarrow> Body \<Rightarrow> EnvironmentUpdates" where
  "fullUpdateNeedsOfBody bodyName body =
     (let needs1 =
        (if getFlightConditions body
         then pushBackUpdate Map.empty vehicle_flight_conditions_update bodyName
         else Map.empty);
          needs2 = radiationPressureUpdateNeeds bodyName (getRadiationPressureInterfaces body) needs1;
          needs3 =
        (if getRotationalEphemeris body \<or> getDependentOrientationCalculator body
         then pushBackUpdate needs2 body_rotational_state_update bodyName
         else needs2);
          needs4 =
        (if castTimeDependentSphericalHarmonicsGravityField (getGravityFieldModel body) \<noteq> None
         then pushBackUpdate needs3 spherical_harmonic_gravity_field_update bodyName
         else needs3)
      in pushBackUpdate needs4 body_mass_update bodyName)"

fun fullUpdatesOfBodies ::
  "NamedBodyMap \<Rightarrow> NamedBodyMap \<Rightarrow> EnvironmentUpdates \<Rightarrow> error + EnvironmentUpdates" where
  "fullUpdatesOfBodies [] bodyMap environmentModelsToUpdate = Inr environmentModelsToUpdate"
| "fullUpdatesOfBodies ((bodyName, body) # rest) bodyMap environmentModelsToUpdate =
     (let needs = fullUpdateNeedsOfBody bodyName body in
      case checkValidityOfRequiredEnvironmentUpdates needs bodyMap of
        Inl e \<Rightarrow> Inl e
      | Inr _ \<Rightarrow>
          fullUpdatesOfBodies rest bodyMap (addEnvironmentUpdates environmentModelsToUpdate needs))"

definition createFullEnvironmentUpdaterSettings :: "NamedBodyMap \<Rightarrow> error + EnvironmentUpdates" where
  "createFullEnvironmentUpdaterSettings bodyMap = fullUpdatesOfBodies bodyMap bodyMap Map.empty"

subsection \<open>Observing the outcome of a resolver\<close>

text \<open>A body as its constructor leaves it: no sub-model is set.\<close>

definition emptyBody :: Body where
  "emptyBody =
     \<lparr>getEphemeris = False, getRotationalEphemeris = False,
      getDependentOrientationCalculator = False, getGravityFieldModel = None,
      getFlightConditions = False, getRadiationPressureInterfaces = [],
      getBodyMassFunction = False\<rparr>"

text \<open>The body list of a facet in the outcome of a resolver, if the resolver returned.\<close>

definition updatedBodiesOfResult ::
  "error + EnvironmentUpdates \<Rightarrow> EnvironmentModelsToUpdate \<Rightarrow> string list option" where
  "updatedBodiesOfResult result updateType =
     (case result of Inl e \<Rightarrow> None | Inr updates \<Rightarrow> Some (updatedBodies updates updateType))"


subsection \<open>The pruning in the words of the specification\<close>







section \<open>Observation settings\<close>

text \<open>
  Modelled from the spec: the enumeration \<open>LinkEndType\<close> is declared outside the two source
  files. The source converts a link end type to its integer and subtracts one to find the
  preceding role of a chain, and a \<open>std::map\<close> keyed by the type is visited in the order of
  these integers; a link end type is therefore modelled by its integer. The roles run from
  the transmitter through the reflectors to the receiver, and the numbers below follow
  that order. The theorems about arbitrary link ends do not depend on the numbers.
\<close>

type_synonym LinkEndType = int

definition unidentified_link_end :: LinkEndType where "unidentified_link_end = - 1"
definition transmitter :: LinkEndType where "transmitter = 0"
definition reflector1 :: LinkEndType where "reflector1 = 1"
definition reflector2 :: LinkEndType where "reflector2 = 2"
definition reflector3 :: LinkEndType where "reflector3 = 3"
definition reflector4 :: LinkEndType where "reflector4 = 4"
definition receiver :: LinkEndType where "receiver = 5"
definition observed_body :: LinkEndType where "observed_body = 6"

text \<open>A link end: the name of a body and the name of a reference point on it (or empty).\<close>

type_synonym LinkEndId = "string \<times> string"

text \<open>
  \<open>LinkEnds\<close> is a \<open>std::map< LinkEndType, LinkEndId >\<close>: the entries in the order in which a
  loop visits them, that is with strictly ascending keys.
\<close>

type_synonym LinkEnds = "(LinkEndType \<times> LinkEndId) list"

definition wellFormedLinkEnds :: "LinkEnds \<Rightarrow> bool" where
  "wellFormedLinkEnds linkEnds = sorted_wrt (<) (map fst linkEnds)"

text \<open>
  Light-time correction settings are only handed on by the source; an object is
  represented by a number that identifies it.
\<close>

datatype LightTimeCorrectionSettings = LightTimeCorrectionSettings nat

text \<open>
  Modelled from the spec: the enumeration \<open>ObservableType\<close> is declared outside the two
  source files; these are the seven observables of the specification.
\<close>

datatype ObservableType =
    one_way_range
  | angular_position
  | position_observable
  | one_way_doppler
  | one_way_differenced_range
  | n_way_range
  | two_way_doppler

section \<open>Observation bias settings and calculators\<close>

text \<open>
  Modelled from the spec: the enumeration \<open>ObservationBiasTypes\<close> is declared outside the
  two source files. The five kinds are the case labels of the switch;
  \<open>unrecognized_bias\<close> stands for any other value.
\<close>

datatype ObservationBiasTypes =
    multiple_observation_biases
  | constant_absolute_bias
  | constant_relative_bias
  | arc_wise_constant_absolute_bias
  | arc_wise_constant_relative_bias
  | unrecognized_bias nat

text \<open>
  The bias settings classes. Each constructor is one class, with the field
  \<open>observationBiasType_\<close> of the base class first: the type tag is a public field, so it is
  kept apart from the class of the object. The entries of the list of a
  \<open>MultipleObservationBiasSettings\<close> are shared pointers, which may be null. A bias vector is
  the list of its entries; its number of rows is the length of the list.
\<close>

datatype ObservationBiasSettings =
    ObservationBiasSettings ObservationBiasTypes
  | MultipleObservationBiasSettings ObservationBiasTypes "ObservationBiasSettings option list"
  | ConstantObservationBiasSettings ObservationBiasTypes "real list" bool
  | ArcWiseConstantObservationBiasSettings ObservationBiasTypes "real list" "real list list"
      LinkEndType bool

fun observationBiasType :: "ObservationBiasSettings \<Rightarrow> ObservationBiasTypes" where
  "observationBiasType (ObservationBiasSettings biasType) = biasType"
| "observationBiasType (MultipleObservationBiasSettings biasType biasSettingsList) = biasType"
| "observationBiasType (ConstantObservationBiasSettings biasType observationBias useAbsoluteBias)
     = biasType"
| "observationBiasType (ArcWiseConstantObservationBiasSettings biasType arcStartTimes
     observationBiases linkEndForTime useAbsoluteBias) = biasType"

text \<open>The bias calculators, each with the arguments of its constructor.\<close>

datatype ObservationBias =
    ConstantObservationBias "real list"
  | ConstantArcWiseObservationBias "real list" "real list list" int
  | ConstantRelativeObservationBias "real list"
  | ConstantRelativeArcWiseObservationBias "real list" "real list list" int
  | MultiTypeObservationBias "ObservationBias list"

text \<open>
  \<open>getLinkEndIndicesForLinkEndTypeAtObservable\<close> is declared outside the two source files;
  the functions that call it take it as their first argument.
\<close>

type_synonym LinkEndIndices = "ObservableType \<Rightarrow> LinkEndType \<Rightarrow> nat \<Rightarrow> error + int list"

text \<open>The loop over the biases of an arc-wise bias: each must have the size of the observable.\<close>

fun checkArcBiasSizes :: "nat \<Rightarrow> real list list \<Rightarrow> error + real list list" where
  "checkArcBiasSizes observationSize [] = Inr []"
| "checkArcBiasSizes observationSize (bias # rest) =
     (if length bias \<noteq> observationSize then Inl DimensionMismatch
      else (case checkArcBiasSizes observationSize rest of
              Inl e \<Rightarrow> Inl e
            | Inr biases \<Rightarrow> Inr (bias # biases)))"

text \<open>\<open>getLinkEndIndicesForLinkEndTypeAtObservable( \<dots> ).at( 0 )\<close>\<close>

definition firstLinkEndIndex ::
  "LinkEndIndices \<Rightarrow> ObservableType \<Rightarrow> LinkEndType \<Rightarrow> nat \<Rightarrow> error + int" where
  "firstLinkEndIndex getLinkEndIndicesForLinkEndTypeAtObservable observableType linkEndForTime
     numberOfLinkEnds =
     (case getLinkEndIndicesForLinkEndTypeAtObservable observableType linkEndForTime
             numberOfLinkEnds of
        Inl e \<Rightarrow> Inl e
      | Inr [] \<Rightarrow> Inl OutOfRange
      | Inr (i # _) \<Rightarrow> Inr i)"

text \<open>
  \<open>createObservationBiasCalculator< ObservationSize >\<close>: a switch on the type tag, then a
  \<open>dynamic_pointer_cast\<close> to the class that the tag requires. The body map is only handed on
  to the recursive calls and is left out. \<open>createObservationBiasList\<close> is the loop of the
  case \<open>multiple_observation_biases\<close>.
\<close>

fun createObservationBiasCalculator ::
  "LinkEndIndices \<Rightarrow> nat \<Rightarrow> LinkEnds \<Rightarrow> ObservableType \<Rightarrow> ObservationBiasSettings
     \<Rightarrow> error + ObservationBias"
and createObservationBiasList ::
  "LinkEndIndices \<Rightarrow> nat \<Rightarrow> LinkEnds \<Rightarrow> ObservableType \<Rightarrow> ObservationBiasSettings option list
     \<Rightarrow> error + ObservationBias list" where
  "createObservationBiasCalculator indices observationSize linkEnds observableType biasSettings =
     (case observationBiasType biasSettings of
        constant_absolute_bias \<Rightarrow>
          (case biasSettings of
             ConstantObservationBiasSettings biasType observationBias useAbsoluteBias \<Rightarrow>
               if \<not> useAbsoluteBias then Inl InvalidSettings
               else if length observationBias \<noteq> observationSize then Inl DimensionMismatch
               else Inr (ConstantObservationBias observationBias)
           | _ \<Rightarrow> Inl InvalidSettings)
      | arc_wise_constant_absolute_bias \<Rightarrow>
          (case biasSettings of
             ArcWiseConstantObservationBiasSettings biasType arcStartTimes observationBiases
               linkEndForTime useAbsoluteBias \<Rightarrow>
               if \<not> useAbsoluteBias then Inl InvalidSettings
               else (case checkArcBiasSizes observationSize observationBiases of
                       Inl e \<Rightarrow> Inl e
                     | Inr biases \<Rightarrow>
                        (case firstLinkEndIndex indices observableType linkEndForTime
                                (length linkEnds) of
                           Inl e \<Rightarrow> Inl e
                         | Inr linkEndIndex \<Rightarrow>
                             Inr (ConstantArcWiseObservationBias arcStartTimes biases linkEndIndex)))
           | _ \<Rightarrow> Inl InvalidSettings)
      | constant_relative_bias \<Rightarrow>
          (case biasSettings of
             ConstantObservationBiasSettings biasType observationBias useAbsoluteBias \<Rightarrow>
               if useAbsoluteBias then Inl InvalidSettings
               else if length observationBias \<noteq> observationSize then Inl DimensionMismatch
               else Inr (ConstantRelativeObservationBias observationBias)
           | _ \<Rightarrow> Inl InvalidSettings)
      | arc_wise_constant_relative_bias \<Rightarrow>
          (case biasSettings of
             ArcWiseConstantObservationBiasSettings biasType arcStartTimes observationBiases
               linkEndForTime useAbsoluteBias \<Rightarrow>
               if useAbsoluteBias then Inl InvalidSettings
               else (case checkArcBiasSizes observationSize observationBiases of
                       Inl e \<Rightarrow> Inl e
                     | Inr biases \<Rightarrow>
                        (case firstLinkEndIndex indices observableType linkEndForTime
                                (length linkEnds) of
                           Inl e \<Rightarrow> Inl e
                         | Inr linkEndIndex \<Rightarrow>
                             Inr (ConstantRelativeArcWiseObservationBias arcStartTimes biases
                                    linkEndIndex)))
           | _ \<Rightarrow> Inl InvalidSettings)
      | multiple_observation_biases \<Rightarrow>
          (case biasSettings of
             MultipleObservationBiasSettings biasType biasSettingsList \<Rightarrow>
               (case createObservationBiasList indices observationSize linkEnds observableType
                       biasSettingsList of
                  Inl e \<Rightarrow> Inl e
                | Inr observationBiasList \<Rightarrow> Inr (MultiTypeObservationBias observationBiasList))
           | _ \<Rightarrow> Inl InvalidSettings)
      | unrecognized_bias k \<Rightarrow> Inl UnrecognizedType)"
| "createObservationBiasList indices observationSize linkEnds observableType [] = Inr []"
| "createObservationBiasList indices observationSize linkEnds observableType (None # rest) =
     Inl NullPointerDereference"
| "createObservationBiasList indices observationSize linkEnds observableType
     (Some biasSettings # rest) =
     (case createObservationBiasCalculator indices observationSize linkEnds observableType
             biasSettings of
        Inl e \<Rightarrow> Inl e
      | Inr observationBias \<Rightarrow>
         (case createObservationBiasList indices observationSize linkEnds observableType rest of
            Inl e \<Rightarrow> Inl e
          | Inr observationBiasList \<Rightarrow> Inr (observationBias # observationBiasList)))"

section \<open>Proper time rate\<close>

text \<open>The enumeration and the two settings classes of the source file.\<close>

datatype DopplerProperTimeRateType =
    custom_doppler_proper_time_rate
  | direct_first_order_doppler_proper_time_rate

datatype DopplerProperTimeRateSettings =
    DopplerProperTimeRateSettings DopplerProperTimeRateType
  | DirectFirstOrderDopplerProperTimeRateSettings DopplerProperTimeRateType string

fun dopplerProperTimeRateType :: "DopplerProperTimeRateSettings \<Rightarrow> DopplerProperTimeRateType" where
  "dopplerProperTimeRateType (DopplerProperTimeRateSettings rateType) = rateType"
| "dopplerProperTimeRateType (DirectFirstOrderDopplerProperTimeRateSettings rateType
     centralBodyName) = rateType"

text \<open>
  The calculator: the link end at which the rate is computed, the name of the central
  body and the link end type of the reference point. The gravitational parameter function
  and the ephemeris function that the source binds are those of the central body.
\<close>

datatype DopplerProperTimeRateInterface =
  DirectFirstOrderDopplerProperTimeRateInterface LinkEndType string LinkEndType

text \<open>
  \<open>createOneWayDopplerProperTimeCalculator\<close>. The settings are a shared pointer, and the
  switch reads the type tag through it without a check.
\<close>

definition createOneWayDopplerProperTimeCalculator ::
  "DopplerProperTimeRateSettings option \<Rightarrow> LinkEnds \<Rightarrow> NamedBodyMap \<Rightarrow> LinkEndType
     \<Rightarrow> error + DopplerProperTimeRateInterface" where
  "createOneWayDopplerProperTimeCalculator properTimeRateSettings linkEnds bodyMap
     linkEndForCalculator =
     (case properTimeRateSettings of
        None \<Rightarrow> Inl NullPointerDereference
      | Some settings \<Rightarrow>
         (case dopplerProperTimeRateType settings of
            direct_first_order_doppler_proper_time_rate \<Rightarrow>
              (case settings of
                 DirectFirstOrderDopplerProperTimeRateSettings rateType centralBodyName \<Rightarrow>
                   if map_of linkEnds linkEndForCalculator = None then Inl InvalidLinkEndTopology
                   else
                    (case map_of bodyMap centralBodyName of
                       None \<Rightarrow> Inl OutOfRange
                     | Some centralBody \<Rightarrow>
                        if getGravityFieldModel centralBody = None
                        then Inl MissingEnvironmentModel
                        else
                         (let referencePointId = (centralBodyName, []) in
                          case map_of linkEnds receiver of
                            None \<Rightarrow> Inl OutOfRange
                          | Some receiverId \<Rightarrow>
                             if receiverId \<noteq> referencePointId then
                               (case map_of linkEnds transmitter of
                                  None \<Rightarrow> Inl OutOfRange
                                | Some transmitterId \<Rightarrow>
                                   if transmitterId \<noteq> referencePointId
                                   then Inr (DirectFirstOrderDopplerProperTimeRateInterface
                                               linkEndForCalculator centralBodyName
                                               unidentified_link_end)
                                   else Inl Unsupported)
                             else Inl Unsupported))
               | _ \<Rightarrow> Inl InvalidSettings)
          | custom_doppler_proper_time_rate \<Rightarrow> Inl UnrecognizedType))"

section \<open>Observation settings classes\<close>

text \<open>
  The fields of the base class \<open>ObservationSettings\<close>, the class
  \<open>OneWayDopplerObservationSettings\<close> that extends it, and an observation settings object:
  the base fields together with its dynamic class and the fields that class adds. The
  settings of the links of an n-way range are pointers to the base class, of which the
  source reads base fields only.
\<close>

record ObservationSettingsFields =
  observableType :: ObservableType
  lightTimeCorrectionsList :: "LightTimeCorrectionSettings list"
  biasSettings :: "ObservationBiasSettings option"

record OneWayDopplerObservationSettings = ObservationSettingsFields +
  transmitterProperTimeRateSettings :: "DopplerProperTimeRateSettings option"
  receiverProperTimeRateSettings :: "DopplerProperTimeRateSettings option"

datatype ObservationSettingsClass =
    PlainObservationSettings
  | OneWayDopplerSettings "DopplerProperTimeRateSettings option"
      "DopplerProperTimeRateSettings option"
  | TwoWayDopplerObservationSettings "OneWayDopplerObservationSettings option"
      "OneWayDopplerObservationSettings option"
  | OneWayDifferencedRangeRateObservationSettings "real \<Rightarrow> real"
  | NWayRangeObservationSettings "ObservationSettingsFields option list"
      "(real \<Rightarrow> real list) option"

record ObservationSettings = ObservationSettingsFields +
  settingsClass :: ObservationSettingsClass

text \<open>A pointer to \<open>OneWayDopplerObservationSettings\<close> passed as a pointer to the base class.\<close>

definition upcastOneWayDopplerSettings :: "OneWayDopplerObservationSettings \<Rightarrow> ObservationSettings"
  where
  "upcastOneWayDopplerSettings settings =
     \<lparr>observableType = observableType settings,
      lightTimeCorrectionsList = lightTimeCorrectionsList settings,
      biasSettings = biasSettings settings,
      settingsClass = OneWayDopplerSettings (transmitterProperTimeRateSettings settings)
                        (receiverProperTimeRateSettings settings)\<rparr>"

text \<open>
  \<open>boost::make_shared< ObservationSettings >( observableType, lightTimeCorrectionsList )\<close>:
  an object of the base class without bias settings.
\<close>

definition makeObservationSettings ::
  "ObservableType \<Rightarrow> LightTimeCorrectionSettings list \<Rightarrow> ObservationSettings" where
  "makeObservationSettings observableType' lightTimeCorrections =
     \<lparr>observableType = observableType', lightTimeCorrectionsList = lightTimeCorrections,
      biasSettings = None, settingsClass = PlainObservationSettings\<rparr>"

section \<open>Observation models\<close>

text \<open>
  Modelled from the spec: \<open>createLightTimeCalculator\<close> is defined outside the two source
  files. The specification gives it as an opaque constructor from the two link ends, the
  environment and the list of corrections; the calculator is represented by the link ends
  and the corrections it was made from.
\<close>

datatype LightTimeCalculator =
  LightTimeCalculator LinkEndId LinkEndId "LightTimeCorrectionSettings list"

definition createLightTimeCalculator ::
  "LinkEndId \<Rightarrow> LinkEndId \<Rightarrow> NamedBodyMap \<Rightarrow> LightTimeCorrectionSettings list
     \<Rightarrow> LightTimeCalculator" where
  "createLightTimeCalculator transmittingLinkEnd receivingLinkEnd bodyMap lightTimeCorrections =
     LightTimeCalculator transmittingLinkEnd receivingLinkEnd lightTimeCorrections"

text \<open>
  The observation models of size 1, each with the arguments of its constructor. A one-way
  Doppler model made without proper time rate calculators has none.
\<close>

datatype OneWayDopplerObservationModel =
  OneWayDopplerObservationModel LightTimeCalculator "DopplerProperTimeRateInterface option"
    "DopplerProperTimeRateInterface option" "ObservationBias option"

datatype ObservationModel =
    OneWayRangeObservationModel LightTimeCalculator "ObservationBias option"
  | OneWayDopplerModel OneWayDopplerObservationModel
  | TwoWayDopplerObservationModel "OneWayDopplerObservationModel option"
      "OneWayDopplerObservationModel option" "ObservationBias option"
  | OneWayDifferencedRangeObservationModel LightTimeCalculator LightTimeCalculator
      "real \<Rightarrow> real" "ObservationBias option"
  | NWayRangeObservationModel "LightTimeCalculator list" "(real \<Rightarrow> real list) option"
      "ObservationBias option"

fun castOneWayDopplerObservationModel ::
  "ObservationModel \<Rightarrow> OneWayDopplerObservationModel option" where
  "castOneWayDopplerObservationModel (OneWayDopplerModel model) = Some model"
| "castOneWayDopplerObservationModel _ = None"

text \<open>\<open>linkEnds.at( linkEndType )\<close>\<close>

definition linkEndsAt :: "LinkEnds \<Rightarrow> LinkEndType \<Rightarrow> error + LinkEndId" where
  "linkEndsAt linkEnds linkEndType =
     (case map_of linkEnds linkEndType of None \<Rightarrow> Inl OutOfRange | Some linkEndId \<Rightarrow> Inr linkEndId)"

text \<open>
  The block that every case repeats: a bias calculator of size 1 is made if the settings
  have bias settings.
\<close>

definition createOptionalObservationBias ::
  "LinkEndIndices \<Rightarrow> LinkEnds \<Rightarrow> ObservableType \<Rightarrow> ObservationBiasSettings option
     \<Rightarrow> error + ObservationBias option" where
  "createOptionalObservationBias indices linkEnds observableType' settings =
     (case settings of
        None \<Rightarrow> Inr None
      | Some biasSettings' \<Rightarrow>
         (case createObservationBiasCalculator indices 1 linkEnds observableType' biasSettings' of
            Inl e \<Rightarrow> Inl e
          | Inr observationBias \<Rightarrow> Inr (Some observationBias)))"

text \<open>
  The consistency loop of the n-way range: for every link end other than the transmitter
  and the receiver, the link end type one below must be present.
\<close>

fun checkNWayLinkEnds :: "LinkEnds \<Rightarrow> LinkEnds \<Rightarrow> error + unit" where
  "checkNWayLinkEnds linkEnds [] = Inr ()"
| "checkNWayLinkEnds linkEnds ((linkEndType, linkEndId) # rest) =
     (if linkEndType \<noteq> transmitter \<and> linkEndType \<noteq> receiver
         \<and> map_of linkEnds (linkEndType - 1) = None
      then Inl InvalidLinkEndTopology
      else checkNWayLinkEnds linkEnds rest)"

text \<open>
  The loop that makes one light-time calculator for each pair of consecutive link ends.
  The third argument is the list of the one-way settings that are still to be used if the
  settings are of class \<open>NWayRangeObservationSettings\<close>, and \<open>None\<close> otherwise.
\<close>

fun createNWayLightTimeCalculators ::
  "LinkEnds \<Rightarrow> NamedBodyMap \<Rightarrow> ObservationSettingsFields option list option
     \<Rightarrow> LightTimeCorrectionSettings list \<Rightarrow> error + LightTimeCalculator list" where
  "createNWayLightTimeCalculators (transmitterEntry # receiverEntry # rest) bodyMap
     oneWayRangeObsevationSettings parentCorrections =
     (case oneWayRangeObsevationSettings of
        Some [] \<Rightarrow> Inl OutOfRange
      | Some (None # remaining) \<Rightarrow> Inl NullPointerDereference
      | Some (Some oneWaySettings # remaining) \<Rightarrow>
          if observableType oneWaySettings \<noteq> one_way_range then Inl InvalidSettings
          else
           (case createNWayLightTimeCalculators (receiverEntry # rest) bodyMap (Some remaining)
                   parentCorrections of
              Inl e \<Rightarrow> Inl e
            | Inr calculators \<Rightarrow>
                Inr (createLightTimeCalculator (snd transmitterEntry) (snd receiverEntry) bodyMap
                       (lightTimeCorrectionsList oneWaySettings) # calculators))
      | None \<Rightarrow>
           (case createNWayLightTimeCalculators (receiverEntry # rest) bodyMap None
                   parentCorrections of
              Inl e \<Rightarrow> Inl e
            | Inr calculators \<Rightarrow>
                Inr (createLightTimeCalculator (snd transmitterEntry) (snd receiverEntry) bodyMap
                       parentCorrections # calculators)))"
| "createNWayLightTimeCalculators linkEnds bodyMap oneWayRangeObsevationSettings
     parentCorrections = Inr []"

text \<open>
  C++ leaves open in which order the arguments of a call are evaluated. Of two arguments
  that can throw, the exception of the one evaluated first is the one that is seen.
\<close>

datatype ArgumentEvaluationOrder = LeftToRight | RightToLeft

definition evaluateBoth ::
  "ArgumentEvaluationOrder \<Rightarrow> error + 'a \<Rightarrow> error + 'b \<Rightarrow> error + 'a \<times> 'b" where
  "evaluateBoth order leftArgument rightArgument =
     (case order of
        LeftToRight \<Rightarrow>
          (case leftArgument of
             Inl e \<Rightarrow> Inl e
           | Inr left \<Rightarrow>
              (case rightArgument of Inl e \<Rightarrow> Inl e | Inr right \<Rightarrow> Inr (left, right)))
      | RightToLeft \<Rightarrow>
          (case rightArgument of
             Inl e \<Rightarrow> Inl e
           | Inr right \<Rightarrow>
              (case leftArgument of Inl e \<Rightarrow> Inl e | Inr left \<Rightarrow> Inr (left, right))))"

text \<open>
  The depth of the recursion through the two-way Doppler case: the nested settings are
  one-way Doppler objects, and settings made on the spot are of the base class.
\<close>

definition twoWayDopplerRank :: "ObservationSettings \<Rightarrow> nat" where
  "twoWayDopplerRank settings =
     (if observableType settings = two_way_doppler
      then (case settingsClass settings of TwoWayDopplerObservationSettings up down \<Rightarrow> 2 | _ \<Rightarrow> 1)
      else 0)"

text \<open>
  \<open>ObservationModelCreator< 1 >::createObservationModel\<close>. The settings are a shared
  pointer. Where the source builds two parts that can fail in the arguments of one
  constructor call (the two proper time rate calculators of a one-way Doppler model, the
  two legs of a two-way Doppler model), the order is the one the compiler chose, which is
  the first argument of the model.
\<close>

function createObservationModel ::
  "ArgumentEvaluationOrder \<Rightarrow> LinkEndIndices \<Rightarrow> LinkEnds \<Rightarrow> ObservationSettings option
     \<Rightarrow> NamedBodyMap \<Rightarrow> error + ObservationModel" where
  "createObservationModel order indices linkEnds observationSettings bodyMap =
     (case observationSettings of
        None \<Rightarrow> Inl NullPointerDereference
      | Some settings \<Rightarrow>
     (case observableType settings of
        one_way_range \<Rightarrow>
          if length linkEnds \<noteq> 2 then Inl InvalidLinkEndTopology
          else if map_of linkEnds receiver = None then Inl InvalidLinkEndTopology
          else if map_of linkEnds transmitter = None then Inl InvalidLinkEndTopology
          else
           (case createOptionalObservationBias indices linkEnds (observableType settings)
                   (biasSettings settings) of
              Inl e \<Rightarrow> Inl e
            | Inr observationBias \<Rightarrow>
               (case linkEndsAt linkEnds transmitter of
                  Inl e \<Rightarrow> Inl e
                | Inr transmitterId \<Rightarrow>
                   (case linkEndsAt linkEnds receiver of
                      Inl e \<Rightarrow> Inl e
                    | Inr receiverId \<Rightarrow>
                        Inr (OneWayRangeObservationModel
                               (createLightTimeCalculator transmitterId receiverId bodyMap
                                  (lightTimeCorrectionsList settings))
                               observationBias))))
      | one_way_doppler \<Rightarrow>
          if length linkEnds \<noteq> 2 then Inl InvalidLinkEndTopology
          else if map_of linkEnds receiver = None then Inl InvalidLinkEndTopology
          else if map_of linkEnds transmitter = None then Inl InvalidLinkEndTopology
          else
           (case createOptionalObservationBias indices linkEnds (observableType settings)
                   (biasSettings settings) of
              Inl e \<Rightarrow> Inl e
            | Inr observationBias \<Rightarrow>
               (case linkEndsAt linkEnds transmitter of
                  Inl e \<Rightarrow> Inl e
                | Inr transmitterId \<Rightarrow>
                   (case linkEndsAt linkEnds receiver of
                      Inl e \<Rightarrow> Inl e
                    | Inr receiverId \<Rightarrow>
                       (case settingsClass settings of
                          OneWayDopplerSettings transmitterSettings receiverSettings \<Rightarrow>
                            (case evaluateBoth order
                                    (createOneWayDopplerProperTimeCalculator transmitterSettings
                                       linkEnds bodyMap transmitter)
                                    (createOneWayDopplerProperTimeCalculator receiverSettings
                                       linkEnds bodyMap receiver) of
                               Inl e \<Rightarrow> Inl e
                             | Inr properTimes \<Rightarrow>
                                 Inr (OneWayDopplerModel
                                        (OneWayDopplerObservationModel
                                           (createLightTimeCalculator transmitterId receiverId
                                              bodyMap (lightTimeCorrectionsList settings))
                                           (Some (fst properTimes))
                                           (Some (snd properTimes)) observationBias)))
                        | _ \<Rightarrow>
                            Inr (OneWayDopplerModel
                                   (OneWayDopplerObservationModel
                                      (createLightTimeCalculator transmitterId receiverId bodyMap
                                         (lightTimeCorrectionsList settings))
                                      None None observationBias))))))
      | two_way_doppler \<Rightarrow>
          if length linkEnds \<noteq> 3 then Inl InvalidLinkEndTopology
          else if map_of linkEnds receiver = None then Inl InvalidLinkEndTopology
          else if map_of linkEnds reflector1 = None then Inl InvalidLinkEndTopology
          else if map_of linkEnds transmitter = None then Inl InvalidLinkEndTopology
          else
           (case createOptionalObservationBias indices linkEnds (observableType settings)
                   (biasSettings settings) of
              Inl e \<Rightarrow> Inl e
            | Inr observationBias \<Rightarrow>
               (case linkEndsAt linkEnds transmitter of
                  Inl e \<Rightarrow> Inl e
                | Inr transmitterId \<Rightarrow>
               (case linkEndsAt linkEnds reflector1 of
                  Inl e \<Rightarrow> Inl e
                | Inr reflectorId \<Rightarrow>
               (case linkEndsAt linkEnds receiver of
                  Inl e \<Rightarrow> Inl e
                | Inr receiverId \<Rightarrow>
                  (let uplinkLinkEnds = [(transmitter, transmitterId), (receiver, reflectorId)];
                       downlinkLinkEnds = [(transmitter, reflectorId), (receiver, receiverId)]
                   in case settingsClass settings of
                     TwoWayDopplerObservationSettings uplinkSettings downlinkSettings \<Rightarrow>
                       (case evaluateBoth order
                               (createObservationModel order indices uplinkLinkEnds
                                  (map_option upcastOneWayDopplerSettings uplinkSettings) bodyMap)
                               (createObservationModel order indices downlinkLinkEnds
                                  (map_option upcastOneWayDopplerSettings downlinkSettings)
                                  bodyMap) of
                          Inl e \<Rightarrow> Inl e
                        | Inr models \<Rightarrow>
                            Inr (TwoWayDopplerObservationModel
                                   (castOneWayDopplerObservationModel (fst models))
                                   (castOneWayDopplerObservationModel (snd models))
                                   observationBias))
                   | _ \<Rightarrow>
                       (case evaluateBoth order
                               (createObservationModel order indices uplinkLinkEnds
                                  (Some (makeObservationSettings one_way_doppler
                                           (lightTimeCorrectionsList settings))) bodyMap)
                               (createObservationModel order indices downlinkLinkEnds
                                  (Some (makeObservationSettings one_way_doppler
                                           (lightTimeCorrectionsList settings))) bodyMap) of
                          Inl e \<Rightarrow> Inl e
                        | Inr models \<Rightarrow>
                            Inr (TwoWayDopplerObservationModel
                                   (castOneWayDopplerObservationModel (fst models))
                                   (castOneWayDopplerObservationModel (snd models))
                                   observationBias)))))))
      | one_way_differenced_range \<Rightarrow>
          (case settingsClass settings of
             OneWayDifferencedRangeRateObservationSettings integrationTimeFunction \<Rightarrow>
               if length linkEnds \<noteq> 2 then Inl InvalidLinkEndTopology
               else if map_of linkEnds receiver = None then Inl InvalidLinkEndTopology
               else if map_of linkEnds transmitter = None then Inl InvalidLinkEndTopology
               else
                (case createOptionalObservationBias indices linkEnds (observableType settings)
                        (biasSettings settings) of
                   Inl e \<Rightarrow> Inl e
                 | Inr observationBias \<Rightarrow>
                    (case linkEndsAt linkEnds transmitter of
                       Inl e \<Rightarrow> Inl e
                     | Inr transmitterId \<Rightarrow>
                        (case linkEndsAt linkEnds receiver of
                           Inl e \<Rightarrow> Inl e
                         | Inr receiverId \<Rightarrow>
                             Inr (OneWayDifferencedRangeObservationModel
                                    (createLightTimeCalculator transmitterId receiverId bodyMap
                                       (lightTimeCorrectionsList settings))
                                    (createLightTimeCalculator transmitterId receiverId bodyMap
                                       (lightTimeCorrectionsList settings))
                                    integrationTimeFunction observationBias))))
           | _ \<Rightarrow> Inl InvalidSettings)
      | n_way_range \<Rightarrow>
          if length linkEnds < 2 then Inl InvalidLinkEndTopology
          else if map_of linkEnds receiver = None then Inl InvalidLinkEndTopology
          else if map_of linkEnds transmitter = None then Inl InvalidLinkEndTopology
          else
           (case checkNWayLinkEnds linkEnds linkEnds of
              Inl e \<Rightarrow> Inl e
            | Inr _ \<Rightarrow>
           (case createOptionalObservationBias indices linkEnds (observableType settings)
                   (biasSettings settings) of
              Inl e \<Rightarrow> Inl e
            | Inr observationBias \<Rightarrow>
               (case settingsClass settings of
                  NWayRangeObservationSettings oneWayRangeObsevationSettings
                    retransmissionTimesFunction \<Rightarrow>
                    if length oneWayRangeObsevationSettings \<noteq> length linkEnds - 1
                    then Inl InvalidSettings
                    else
                     (case createNWayLightTimeCalculators linkEnds bodyMap
                             (Some oneWayRangeObsevationSettings)
                             (lightTimeCorrectionsList settings) of
                        Inl e \<Rightarrow> Inl e
                      | Inr lightTimeCalculators \<Rightarrow>
                          Inr (NWayRangeObservationModel lightTimeCalculators
                                 retransmissionTimesFunction observationBias))
                | _ \<Rightarrow>
                     (case createNWayLightTimeCalculators linkEnds bodyMap None
                             (lightTimeCorrectionsList settings) of
                        Inl e \<Rightarrow> Inl e
                      | Inr lightTimeCalculators \<Rightarrow>
                          Inr (NWayRangeObservationModel lightTimeCalculators None
                                 observationBias)))))
      | angular_position \<Rightarrow> Inl UnrecognizedType
      | position_observable \<Rightarrow> Inl UnrecognizedType))"
  by pat_completeness auto
termination
proof (relation "measure (\<lambda>(order, indices, linkEnds, observationSettings, bodyMap).
    case observationSettings of None \<Rightarrow> 0 | Some settings \<Rightarrow> twoWayDopplerRank settings)")
  show "wf (measure (\<lambda>(order, indices, linkEnds, observationSettings, bodyMap).
    case observationSettings of None \<Rightarrow> 0 | Some settings \<Rightarrow> twoWayDopplerRank settings))"
    by simp
qed (auto simp add: twoWayDopplerRank_def upcastOneWayDopplerSettings_def
       makeObservationSettings_def split: option.splits)

declare createObservationModel.simps [simp del]

section \<open>Regrouping\<close>

text \<open>
  The two typedefs of the source file: a multimap from link ends to settings, and a map
  from observable type to a map from link ends to settings.
\<close>

type_synonym ObservationSettingsMap = "(LinkEnds \<times> ObservationSettings) list"

type_synonym SortedObservationSettingsMap =
  "(ObservableType \<times> (LinkEnds \<times> ObservationSettings) list) list"

text \<open>
  Modelled from the spec: \<open>convertUnsortedToSortedObservationSettingsMap\<close> is declared in the
  header and defined outside the two source files. Each entry is put under the observable
  type read from its settings, at its link ends: \<open>sorted[ type ][ linkEnds ] = settings\<close>.
\<close>

definition insertSortedObservationSettings ::
  "SortedObservationSettingsMap \<Rightarrow> LinkEnds \<times> ObservationSettings
     \<Rightarrow> SortedObservationSettingsMap" where
  "insertSortedObservationSettings sortedMap entry =
     AList.update (observableType (snd entry))
       (AList.update (fst entry) (snd entry)
          (case map_of sortedMap (observableType (snd entry)) of
             None \<Rightarrow> []
           | Some settingsPerLinkEnds \<Rightarrow> settingsPerLinkEnds))
       sortedMap"

definition convertUnsortedToSortedObservationSettingsMap ::
  "ObservationSettingsMap \<Rightarrow> SortedObservationSettingsMap" where
  "convertUnsortedToSortedObservationSettingsMap unsortedObservationSettingsMap =
     foldl insertSortedObservationSettings [] unsortedObservationSettingsMap"

text \<open>The total number of settings objects in a sorted map.\<close>

definition numberOfEntries :: "SortedObservationSettingsMap \<Rightarrow> nat" where
  "numberOfEntries sortedMap = sum_list (map (\<lambda>bucket. length (snd bucket)) sortedMap)"

text \<open>The settings stored for an observable type and link ends, if any.\<close>

definition sortedSettingsAt ::
  "SortedObservationSettingsMap \<Rightarrow> ObservableType \<Rightarrow> LinkEnds \<Rightarrow> ObservationSettings option"
  where
  "sortedSettingsAt sortedMap observableType' linkEnds =
     (case map_of sortedMap observableType' of
        None \<Rightarrow> None
      | Some settingsPerLinkEnds \<Rightarrow> map_of settingsPerLinkEnds linkEnds)"

text \<open>The place of an entry in the sorted map: its own observable type and its link ends.\<close>

definition entryKey :: "LinkEnds \<times> ObservationSettings \<Rightarrow> ObservableType \<times> LinkEnds" where
  "entryKey entry = (observableType (snd entry), fst entry)"

section \<open>Properties\<close>

subsection \<open>The validator\<close>

lemma checkSingleUpdate_outcome:
  "checkSingleUpdate updateType bodyMap bodyName = Inl MissingEnvironmentModel
   \<or> checkSingleUpdate updateType bodyMap bodyName = Inr ()"
  by (simp add: checkSingleUpdate_def split: option.split EnvironmentModelsToUpdate.split)

lemma castSphericalHarmonicsGravityField_None:
  "castSphericalHarmonicsGravityField g = None \<longleftrightarrow> g = None \<or> g = Some PointMassGravityField"
  by (cases g rule: castSphericalHarmonicsGravityField.cases) simp_all

lemma checkSingleUpdate_fails:
  "checkSingleUpdate updateType bodyMap bodyName = Inl MissingEnvironmentModel \<longleftrightarrow>
     bodyName \<noteq> [] \<and>
     (map_of bodyMap bodyName = None \<or>
      (\<exists>body. map_of bodyMap bodyName = Some body \<and> lacksRequiredModel updateType body))"
  by (cases updateType)
     (auto simp add: checkSingleUpdate_def lacksRequiredModel_def
         castSphericalHarmonicsGravityField_None split: option.split)

lemma checkUpdatedBodies_outcome:
  "checkUpdatedBodies updateType bodyMap bodies = Inl MissingEnvironmentModel
   \<or> checkUpdatedBodies updateType bodyMap bodies = Inr ()"
proof (induction bodies)
  case Nil
  show ?case by simp
next
  case (Cons bodyName rest)
  then show ?case
    using checkSingleUpdate_outcome [of updateType bodyMap bodyName]
    by (auto split: sum.split)
qed

lemma checkUpdatedBodies_fails:
  "checkUpdatedBodies updateType bodyMap bodies = Inl MissingEnvironmentModel \<longleftrightarrow>
     (\<exists>bodyName \<in> set bodies.
        checkSingleUpdate updateType bodyMap bodyName = Inl MissingEnvironmentModel)"
proof (induction bodies)
  case Nil
  show ?case by simp
next
  case (Cons bodyName rest)
  then show ?case
    using checkSingleUpdate_outcome [of updateType bodyMap bodyName]
    by (auto split: sum.split)
qed

lemma checkUpdatedBodies_error:
  "checkUpdatedBodies updateType bodyMap bodies = Inl e \<Longrightarrow> e = MissingEnvironmentModel"
  using checkUpdatedBodies_outcome [of updateType bodyMap bodies] by auto

lemma checkUpdateTypes_outcome:
  "checkUpdateTypes updateTypes requestedUpdates bodyMap = Inl MissingEnvironmentModel
   \<or> checkUpdateTypes updateTypes requestedUpdates bodyMap = Inr ()"
proof (induction updateTypes)
  case Nil
  show ?case by simp
next
  case (Cons updateType rest)
  then show ?case
    by (auto split: sum.split option.split dest: checkUpdatedBodies_error)
qed

lemma checkUpdateTypes_fails:
  "checkUpdateTypes updateTypes requestedUpdates bodyMap = Inl MissingEnvironmentModel \<longleftrightarrow>
     (\<exists>updateType \<in> set updateTypes. \<exists>bodies.
        requestedUpdates updateType = Some bodies \<and>
        checkUpdatedBodies updateType bodyMap bodies = Inl MissingEnvironmentModel)"
proof (induction updateTypes)
  case Nil
  show ?case by simp
next
  case (Cons updateType rest)
  then show ?case
    by (auto split: sum.split option.split dest: checkUpdatedBodies_error)
qed

lemma set_allEnvironmentModelsToUpdate: "set allEnvironmentModelsToUpdate = UNIV"
proof -
  have "updateType \<in> set allEnvironmentModelsToUpdate" for updateType
    by (cases updateType) (simp_all add: allEnvironmentModelsToUpdate_def)
  then show ?thesis by blast
qed

lemma checkValidity_fails:
  "checkValidityOfRequiredEnvironmentUpdates requestedUpdates bodyMap = Inl MissingEnvironmentModel
      \<longleftrightarrow>
    (\<exists>updateType bodies bodyName.
        requestedUpdates updateType = Some bodies \<and> bodyName \<in> set bodies \<and> bodyName \<noteq> [] \<and>
        (map_of bodyMap bodyName = None \<or>
         (\<exists>body. map_of bodyMap bodyName = Some body \<and> lacksRequiredModel updateType body)))"
  unfolding checkValidityOfRequiredEnvironmentUpdates_def checkUpdateTypes_fails
    checkUpdatedBodies_fails checkSingleUpdate_fails set_allEnvironmentModelsToUpdate
  by blast

lemma checkValidity_outcome:
  "checkValidityOfRequiredEnvironmentUpdates requestedUpdates bodyMap = Inl MissingEnvironmentModel
   \<or> checkValidityOfRequiredEnvironmentUpdates requestedUpdates bodyMap = Inr ()"
  unfolding checkValidityOfRequiredEnvironmentUpdates_def
  by (rule checkUpdateTypes_outcome)

lemma checkValidity_error:
  "checkValidityOfRequiredEnvironmentUpdates requestedUpdates bodyMap = Inl e
   \<Longrightarrow> e = MissingEnvironmentModel"
  using checkValidity_outcome [of requestedUpdates bodyMap] by auto



subsection \<open>The brute-force builder\<close>

lemma updatedBodies_pushBackUpdate:
  "updatedBodies (pushBackUpdate updates updateType bodyName) k =
     (if k = updateType then updatedBodies updates k @ [bodyName] else updatedBodies updates k)"
  by (simp add: updatedBodies_def pushBackUpdate_def)

lemma updatedBodies_addEnvironmentUpdates:
  "updatedBodies (addEnvironmentUpdates environmentUpdateList updatesToAdd) k =
     updatedBodies environmentUpdateList k @ updatedBodies updatesToAdd k"
  by (simp add: updatedBodies_def addEnvironmentUpdates_def split: option.split)

lemma updatedBodies_empty: "updatedBodies Map.empty k = []"
  by (simp add: updatedBodies_def)

lemma updatedBodies_radiationPressureUpdateNeeds:
  "updatedBodies (radiationPressureUpdateNeeds bodyName interfaces needs) k =
     (if k = radiation_pressure_interface_update
      then updatedBodies needs k @ replicate (length interfaces) bodyName
      else updatedBodies needs k)"
proof (induction interfaces arbitrary: needs)
  case Nil
  show ?case by simp
next
  case (Cons interface rest)
  show ?case
    by (simp add: Cons.IH updatedBodies_pushBackUpdate replicate_append_same)
qed

lemma updatedBodies_fullUpdateNeedsOfBody:
  "updatedBodies (fullUpdateNeedsOfBody bodyName body) k =
     (case k of
        body_transational_state_update \<Rightarrow> []
      | body_translational_state_update \<Rightarrow> []
      | body_rotational_state_update \<Rightarrow>
          if getRotationalEphemeris body \<or> getDependentOrientationCalculator body
          then [bodyName] else []
      | body_mass_update \<Rightarrow> [bodyName]
      | spherical_harmonic_gravity_field_update \<Rightarrow>
          if getGravityFieldModel body = Some TimeDependentSphericalHarmonicsGravityField
          then [bodyName] else []
      | vehicle_flight_conditions_update \<Rightarrow> if getFlightConditions body then [bodyName] else []
      | radiation_pressure_interface_update \<Rightarrow>
          replicate (length (getRadiationPressureInterfaces body)) bodyName)"
proof -
  have td: "(\<exists>y. castTimeDependentSphericalHarmonicsGravityField g = Some y)
      \<longleftrightarrow> g = Some TimeDependentSphericalHarmonicsGravityField" for g
    by (cases g rule: castTimeDependentSphericalHarmonicsGravityField.cases) simp_all
  show ?thesis
    by (cases k)
       (simp_all add: fullUpdateNeedsOfBody_def Let_def updatedBodies_pushBackUpdate
          updatedBodies_radiationPressureUpdateNeeds updatedBodies_empty td)
qed

lemma updatedBodies_mem:
  "(\<exists>bodies. updates k = Some bodies \<and> bodyName \<in> set bodies)
     \<longleftrightarrow> bodyName \<in> set (updatedBodies updates k)"
  by (cases "updates k") (auto simp add: updatedBodies_def)

lemma checkValidity_fails_updatedBodies:
  "checkValidityOfRequiredEnvironmentUpdates requestedUpdates bodyMap = Inl MissingEnvironmentModel
      \<longleftrightarrow>
    (\<exists>updateType bodyName.
        bodyName \<in> set (updatedBodies requestedUpdates updateType) \<and> bodyName \<noteq> [] \<and>
        (map_of bodyMap bodyName = None \<or>
         (\<exists>body. map_of bodyMap bodyName = Some body \<and> lacksRequiredModel updateType body)))"
  unfolding checkValidity_fails updatedBodies_mem [symmetric] by blast

lemma fullUpdateNeedsOfBody_names:
  "n \<in> set (updatedBodies (fullUpdateNeedsOfBody bodyName body) updateType) \<Longrightarrow> n = bodyName"
  by (cases updateType) (simp_all add: updatedBodies_fullUpdateNeedsOfBody split: if_splits)

lemma fullUpdateNeedsOfBody_lacks:
  "n \<in> set (updatedBodies (fullUpdateNeedsOfBody bodyName body) updateType)
   \<Longrightarrow> lacksRequiredModel updateType body \<Longrightarrow> \<not> getBodyMassFunction body"
  by (cases updateType)
     (simp_all add: updatedBodies_fullUpdateNeedsOfBody lacksRequiredModel_def split: if_splits)

lemma checkValidity_fullUpdateNeedsOfBody:
  assumes "map_of bodyMap bodyName = Some body"
  shows "checkValidityOfRequiredEnvironmentUpdates (fullUpdateNeedsOfBody bodyName body) bodyMap
           = Inl MissingEnvironmentModel
         \<longleftrightarrow> bodyName \<noteq> [] \<and> \<not> getBodyMassFunction body"
proof
  assume "checkValidityOfRequiredEnvironmentUpdates (fullUpdateNeedsOfBody bodyName body) bodyMap
           = Inl MissingEnvironmentModel"
  then obtain updateType n where
    mem: "n \<in> set (updatedBodies (fullUpdateNeedsOfBody bodyName body) updateType)"
    and ne: "n \<noteq> []"
    and lack: "map_of bodyMap n = None \<or>
         (\<exists>b. map_of bodyMap n = Some b \<and> lacksRequiredModel updateType b)"
    unfolding checkValidity_fails_updatedBodies by blast
  from mem have n: "n = bodyName" by (rule fullUpdateNeedsOfBody_names)
  from lack have "lacksRequiredModel updateType body"
    unfolding n using assms by simp
  with mem have "\<not> getBodyMassFunction body" by (rule fullUpdateNeedsOfBody_lacks)
  with ne n show "bodyName \<noteq> [] \<and> \<not> getBodyMassFunction body" by simp
next
  assume a: "bodyName \<noteq> [] \<and> \<not> getBodyMassFunction body"
  have "bodyName \<in> set (updatedBodies (fullUpdateNeedsOfBody bodyName body) body_mass_update)"
    by (simp add: updatedBodies_fullUpdateNeedsOfBody)
  moreover have "lacksRequiredModel body_mass_update body"
    using a by (simp add: lacksRequiredModel_def)
  ultimately show "checkValidityOfRequiredEnvironmentUpdates
      (fullUpdateNeedsOfBody bodyName body) bodyMap = Inl MissingEnvironmentModel"
    unfolding checkValidity_fails_updatedBodies using a assms by blast
qed

lemma fullUpdatesOfBodies_outcome:
  "fullUpdatesOfBodies bodies bodyMap acc = Inl MissingEnvironmentModel
   \<or> (\<exists>updates. fullUpdatesOfBodies bodies bodyMap acc = Inr updates)"
proof (induction bodies arbitrary: acc)
  case Nil
  show ?case by simp
next
  case (Cons entry rest)
  obtain bodyName body where entry: "entry = (bodyName, body)" by (cases entry)
  show ?case
    using Cons.IH checkValidity_outcome [of "fullUpdateNeedsOfBody bodyName body" bodyMap]
    by (auto simp add: entry Let_def split: sum.split)
qed

lemma fullUpdatesOfBodies_fails:
  assumes "\<And>bodyName body. (bodyName, body) \<in> set bodies \<Longrightarrow> map_of bodyMap bodyName = Some body"
  shows "fullUpdatesOfBodies bodies bodyMap acc = Inl MissingEnvironmentModel
         \<longleftrightarrow> (\<exists>(bodyName, body) \<in> set bodies. bodyName \<noteq> [] \<and> \<not> getBodyMassFunction body)"
  using assms
proof (induction bodies arbitrary: acc)
  case Nil
  show ?case by simp
next
  case (Cons entry rest)
  obtain bodyName body where entry: "entry = (bodyName, body)" by (cases entry)
  have here: "map_of bodyMap bodyName = Some body"
    using Cons.prems [of bodyName body] by (simp add: entry)
  have rest: "fullUpdatesOfBodies rest bodyMap acc' = Inl MissingEnvironmentModel
         \<longleftrightarrow> (\<exists>(bodyName, body) \<in> set rest. bodyName \<noteq> [] \<and> \<not> getBodyMassFunction body)" for acc'
    using Cons.IH [of acc'] Cons.prems by simp
  show ?case
    using checkValidity_fullUpdateNeedsOfBody [OF here]
      checkValidity_outcome [of "fullUpdateNeedsOfBody bodyName body" bodyMap]
    by (auto simp add: entry Let_def rest split: sum.split)
qed

lemma fullUpdatesOfBodies_content:
  "fullUpdatesOfBodies bodies bodyMap acc = Inr updates \<Longrightarrow>
   updatedBodies updates k =
     updatedBodies acc k @
     concat (map (\<lambda>(bodyName, body). updatedBodies (fullUpdateNeedsOfBody bodyName body) k) bodies)"
proof (induction bodies arbitrary: acc)
  case Nil
  then show ?case by simp
next
  case (Cons entry rest)
  obtain bodyName body where entry: "entry = (bodyName, body)" by (cases entry)
  from Cons.prems have
    "fullUpdatesOfBodies rest bodyMap
       (addEnvironmentUpdates acc (fullUpdateNeedsOfBody bodyName body)) = Inr updates"
    by (simp add: entry Let_def split: sum.splits)
  from Cons.IH [OF this] show ?case
    by (simp add: entry updatedBodies_addEnvironmentUpdates)
qed

lemma map_of_wellFormed:
  "wellFormedBodyMap bodyMap \<Longrightarrow> (bodyName, body) \<in> set bodyMap
     \<Longrightarrow> map_of bodyMap bodyName = Some body"
  by (simp add: wellFormedBodyMap_def)

text \<open>
  Claim C7, amended. The brute-force builder adds the mass update of every body and
  validates it, so it fails with \<open>MissingEnvironmentModel\<close> exactly when some body with a
  non-empty name has no body mass function, and returns an update map otherwise. Whenever
  it returns a map, a body is listed under the rotational state facet if and only if it is
  a body of the environment that has a rotational ephemeris or a dependent orientation
  calculator.
\<close>

theorem createFull_rotational:
  assumes "wellFormedBodyMap bodyMap"
  shows "(createFullEnvironmentUpdaterSettings bodyMap = Inl MissingEnvironmentModel
           \<longleftrightarrow> (\<exists>(bodyName, body) \<in> set bodyMap. bodyName \<noteq> [] \<and> \<not> getBodyMassFunction body))
       \<and> (createFullEnvironmentUpdaterSettings bodyMap = Inl MissingEnvironmentModel
           \<or> (\<exists>updates. createFullEnvironmentUpdaterSettings bodyMap = Inr updates))
       \<and> (\<forall>updates bodyName. createFullEnvironmentUpdaterSettings bodyMap = Inr updates \<longrightarrow>
            (bodyName \<in> set (updatedBodies updates body_rotational_state_update)
             \<longleftrightarrow> (\<exists>body. map_of bodyMap bodyName = Some body \<and>
                    (getRotationalEphemeris body \<or> getDependentOrientationCalculator body))))"
proof (intro conjI allI impI)
  show "createFullEnvironmentUpdaterSettings bodyMap = Inl MissingEnvironmentModel
           \<longleftrightarrow> (\<exists>(bodyName, body) \<in> set bodyMap. bodyName \<noteq> [] \<and> \<not> getBodyMassFunction body)"
    unfolding createFullEnvironmentUpdaterSettings_def
    by (rule fullUpdatesOfBodies_fails) (rule map_of_wellFormed [OF assms])
next
  show "createFullEnvironmentUpdaterSettings bodyMap = Inl MissingEnvironmentModel
           \<or> (\<exists>updates. createFullEnvironmentUpdaterSettings bodyMap = Inr updates)"
    unfolding createFullEnvironmentUpdaterSettings_def by (rule fullUpdatesOfBodies_outcome)
next
  fix updates bodyName
  assume "createFullEnvironmentUpdaterSettings bodyMap = Inr updates"
  then have content: "updatedBodies updates body_rotational_state_update =
     concat (map (\<lambda>(bodyName, body).
        updatedBodies (fullUpdateNeedsOfBody bodyName body) body_rotational_state_update) bodyMap)"
    unfolding createFullEnvironmentUpdaterSettings_def
    using fullUpdatesOfBodies_content [of bodyMap bodyMap Map.empty updates]
    by (simp add: updatedBodies_empty)
  have "bodyName \<in> set (updatedBodies updates body_rotational_state_update)
         \<longleftrightarrow> (\<exists>body. (bodyName, body) \<in> set bodyMap \<and>
                    (getRotationalEphemeris body \<or> getDependentOrientationCalculator body))"
    unfolding content by (auto simp add: updatedBodies_fullUpdateNeedsOfBody split: if_splits)
  also have "\<dots> \<longleftrightarrow> (\<exists>body. map_of bodyMap bodyName = Some body \<and>
                    (getRotationalEphemeris body \<or> getDependentOrientationCalculator body))"
    using map_of_wellFormed [OF assms] by (auto dest: map_of_SomeD)
  finally show "bodyName \<in> set (updatedBodies updates body_rotational_state_update)
             \<longleftrightarrow> (\<exists>body. map_of bodyMap bodyName = Some body \<and>
                    (getRotationalEphemeris body \<or> getDependentOrientationCalculator body))" .
qed

text \<open>
  One body with a rotation model and one without, both with a mass function: only the
  former is listed under the rotational state facet.
\<close>

theorem createFull_rotational_witness:
  "wellFormedBodyMap
     [(''Earth'', emptyBody\<lparr>getRotationalEphemeris := True, getBodyMassFunction := True\<rparr>),
      (''Vehicle'', emptyBody\<lparr>getBodyMassFunction := True\<rparr>)]
   \<and> updatedBodiesOfResult
       (createFullEnvironmentUpdaterSettings
          [(''Earth'', emptyBody\<lparr>getRotationalEphemeris := True, getBodyMassFunction := True\<rparr>),
           (''Vehicle'', emptyBody\<lparr>getBodyMassFunction := True\<rparr>)])
       body_rotational_state_update \<noteq> None
   \<and> ''Earth'' \<in> set (the (updatedBodiesOfResult
       (createFullEnvironmentUpdaterSettings
          [(''Earth'', emptyBody\<lparr>getRotationalEphemeris := True, getBodyMassFunction := True\<rparr>),
           (''Vehicle'', emptyBody\<lparr>getBodyMassFunction := True\<rparr>)])
       body_rotational_state_update))
   \<and> ''Vehicle'' \<notin> set (the (updatedBodiesOfResult
       (createFullEnvironmentUpdaterSettings
          [(''Earth'', emptyBody\<lparr>getRotationalEphemeris := True, getBodyMassFunction := True\<rparr>),
           (''Vehicle'', emptyBody\<lparr>getBodyMassFunction := True\<rparr>)])
       body_rotational_state_update))"
proof -
  let ?bodyMap =
    "[(''Earth'', emptyBody\<lparr>getRotationalEphemeris := True, getBodyMassFunction := True\<rparr>),
      (''Vehicle'', emptyBody\<lparr>getBodyMassFunction := True\<rparr>)]"
  have wf: "wellFormedBodyMap ?bodyMap"
    by (simp add: wellFormedBodyMap_def)
  note main = createFull_rotational [OF wf]
  have "\<not> (\<exists>(bodyName, body) \<in> set ?bodyMap. bodyName \<noteq> [] \<and> \<not> getBodyMassFunction body)"
    by simp
  with main obtain updates where
    ok: "createFullEnvironmentUpdaterSettings ?bodyMap = Inr updates"
    by blast
  from main ok have
    "''Earth'' \<in> set (updatedBodies updates body_rotational_state_update)"
    "''Vehicle'' \<notin> set (updatedBodies updates body_rotational_state_update)"
    by (simp_all add: emptyBody_def)
  with wf ok show ?thesis
    by (simp add: updatedBodiesOfResult_def)
qed

text \<open>
  Claim C7 as stated fails: for an environment whose only body has a rotational ephemeris
  but no body mass function the builder throws, and lists nothing.
\<close>

theorem createFull_rotational_counterexample:
  "createFullEnvironmentUpdaterSettings
     [(''Earth'', emptyBody\<lparr>getRotationalEphemeris := True\<rparr>)]
   = Inl MissingEnvironmentModel"
  by (simp add: createFullEnvironmentUpdaterSettings_def fullUpdateNeedsOfBody_def
      emptyBody_def pushBackUpdate_def checkValidityOfRequiredEnvironmentUpdates_def
      allEnvironmentModelsToUpdate_def checkSingleUpdate_def)

subsection \<open>Pruning of propagated states\<close>


















subsection \<open>Torque and acceleration models\<close>

text \<open>
  Claim C1 fails on the code: for a torque model of unrecognized type the default branch of
  the switch only writes to \<open>std::cerr\<close>, and the function returns an (empty) update map.
\<close>

theorem createRotational_unrecognized_torque:
  "createRotationalEquationsOfMotionEnvironmentUpdaterSettings
     [(''Vehicle'', [(''Earth'', [unrecognized_torque 0])])] []
   = Inr Map.empty"
  by (simp add: createRotationalEquationsOfMotionEnvironmentUpdaterSettings_def
      checkValidityOfRequiredEnvironmentUpdates_def allEnvironmentModelsToUpdate_def
      addEnvironmentUpdates_def)





subsection \<open>Regrouping of observation settings\<close>

lemma sum_list_update:
  "sum_list (map (\<lambda>bucket. length (snd bucket)) (AList.update k b al))
     + (case map_of al k of None \<Rightarrow> 0 | Some old \<Rightarrow> length old)
   = sum_list (map (\<lambda>bucket. length (snd bucket)) al) + length b"
  by (induction al) auto

lemma sortedSettingsAt_insert:
  "sortedSettingsAt (insertSortedObservationSettings sortedMap entry) t l =
     (if t = observableType (snd entry) \<and> l = fst entry then Some (snd entry)
      else sortedSettingsAt sortedMap t l)"
  by (simp add: sortedSettingsAt_def insertSortedObservationSettings_def update_conv'
      split: option.split)

lemma numberOfEntries_insert:
  "numberOfEntries (insertSortedObservationSettings sortedMap entry) =
     numberOfEntries sortedMap +
     (if sortedSettingsAt sortedMap (observableType (snd entry)) (fst entry) = None then 1 else 0)"
proof (cases "map_of sortedMap (observableType (snd entry))")
  case None
  then show ?thesis
    using sum_list_update [of "observableType (snd entry)" "[(fst entry, snd entry)]" sortedMap]
    by (simp add: numberOfEntries_def insertSortedObservationSettings_def sortedSettingsAt_def)
next
  case (Some old)
  have len: "length (AList.update (fst entry) (snd entry) old) =
      (if map_of old (fst entry) = None then Suc (length old) else length old)"
    by (induction old) auto
  show ?thesis
    using sum_list_update
      [of "observableType (snd entry)" "AList.update (fst entry) (snd entry) old" sortedMap]
    by (cases "map_of old (fst entry)")
       (simp_all add: numberOfEntries_def insertSortedObservationSettings_def
          sortedSettingsAt_def Some len)
qed

lemma sortedSettingsAt_foldl_other:
  "(t, l) \<notin> entryKey ` set entries \<Longrightarrow>
   sortedSettingsAt (foldl insertSortedObservationSettings sortedMap entries) t l
     = sortedSettingsAt sortedMap t l"
  by (induction entries arbitrary: sortedMap)
     (auto simp add: sortedSettingsAt_insert entryKey_def)

lemma numberOfEntries_foldl:
  "distinct (map entryKey entries) \<Longrightarrow>
   \<forall>entry \<in> set entries.
      sortedSettingsAt sortedMap (observableType (snd entry)) (fst entry) = None \<Longrightarrow>
   numberOfEntries (foldl insertSortedObservationSettings sortedMap entries)
     = numberOfEntries sortedMap + length entries"
proof (induction entries arbitrary: sortedMap)
  case Nil
  show ?case by simp
next
  case (Cons entry rest)
  have "\<forall>other \<in> set rest.
      sortedSettingsAt (insertSortedObservationSettings sortedMap entry)
        (observableType (snd other)) (fst other) = None"
  proof
    fix other assume o: "other \<in> set rest"
    from Cons.prems(1) have "entryKey entry \<notin> entryKey ` set rest" by simp
    with o have "entryKey other \<noteq> entryKey entry" by (metis imageI)
    with o Cons.prems(2) show
      "sortedSettingsAt (insertSortedObservationSettings sortedMap entry)
        (observableType (snd other)) (fst other) = None"
      by (auto simp add: sortedSettingsAt_insert entryKey_def)
  qed
  with Cons.IH [of "insertSortedObservationSettings sortedMap entry"] Cons.prems show ?case
    by (simp add: numberOfEntries_insert)
qed

lemma sortedSettingsAt_foldl_distinct:
  "distinct (map entryKey entries) \<Longrightarrow> entry \<in> set entries \<Longrightarrow>
   sortedSettingsAt (foldl insertSortedObservationSettings sortedMap entries)
     (observableType (snd entry)) (fst entry) = Some (snd entry)"
proof (induction entries arbitrary: sortedMap)
  case Nil
  then show ?case by simp
next
  case (Cons first rest)
  show ?case
  proof (cases "entry \<in> set rest")
    case True
    with Cons show ?thesis by simp
  next
    case False
    with Cons.prems have e: "entry = first" by simp
    from Cons.prems(1) have "entryKey first \<notin> entryKey ` set rest" by simp
    then have "(observableType (snd first), fst first) \<notin> entryKey ` set rest"
      by (simp add: entryKey_def)
    from sortedSettingsAt_foldl_other [OF this] show ?thesis
      by (simp add: e sortedSettingsAt_insert)
  qed
qed

lemma sortedSettingsAt_foldl_type:
  "sortedSettingsAt (foldl insertSortedObservationSettings sortedMap entries) t l = Some settings
   \<Longrightarrow> sortedSettingsAt sortedMap t l = Some settings
       \<or> ((l, settings) \<in> set entries \<and> observableType settings = t)"
proof (induction entries arbitrary: sortedMap)
  case Nil
  then show ?case by simp
next
  case (Cons first rest)
  from Cons.IH [of "insertSortedObservationSettings sortedMap first"] Cons.prems
  show ?case
    by (cases first) (auto simp add: sortedSettingsAt_insert split: if_splits)
qed

text \<open>
  Claim C3, amended. If no two entries of the unsorted multimap have both the same link
  ends and the same observable type, the sorted map has as many entries as the multimap,
  and every entry is found under its own observable type at its link ends. In that case
  every settings object of the sorted map comes from the multimap and lies under the
  observable type it declares. The function is a pure function of its argument.
\<close>

theorem convertUnsortedToSorted_distinct_keys:
  assumes "distinct (map entryKey unsortedObservationSettingsMap)"
  shows "numberOfEntries (convertUnsortedToSortedObservationSettingsMap
                            unsortedObservationSettingsMap)
           = length unsortedObservationSettingsMap
       \<and> (\<forall>entry \<in> set unsortedObservationSettingsMap.
            sortedSettingsAt (convertUnsortedToSortedObservationSettingsMap
                                unsortedObservationSettingsMap)
              (observableType (snd entry)) (fst entry) = Some (snd entry))
       \<and> (\<forall>t l settings.
            sortedSettingsAt (convertUnsortedToSortedObservationSettingsMap
                                unsortedObservationSettingsMap) t l = Some settings
            \<longrightarrow> observableType settings = t \<and> (l, settings) \<in> set unsortedObservationSettingsMap)"
proof (intro conjI ballI allI impI)
  show "numberOfEntries (convertUnsortedToSortedObservationSettingsMap
                            unsortedObservationSettingsMap)
           = length unsortedObservationSettingsMap"
    unfolding convertUnsortedToSortedObservationSettingsMap_def
    using numberOfEntries_foldl [OF assms, of "[]"]
    by (simp add: sortedSettingsAt_def numberOfEntries_def)
next
  fix entry assume "entry \<in> set unsortedObservationSettingsMap"
  with assms show "sortedSettingsAt (convertUnsortedToSortedObservationSettingsMap
                                unsortedObservationSettingsMap)
              (observableType (snd entry)) (fst entry) = Some (snd entry)"
    unfolding convertUnsortedToSortedObservationSettingsMap_def
    by (rule sortedSettingsAt_foldl_distinct)
next
  fix t l settings
  assume "sortedSettingsAt (convertUnsortedToSortedObservationSettingsMap
                                unsortedObservationSettingsMap) t l = Some settings"
  then have "sortedSettingsAt [] t l = Some settings
       \<or> ((l, settings) \<in> set unsortedObservationSettingsMap \<and> observableType settings = t)"
    unfolding convertUnsortedToSortedObservationSettingsMap_def
    by (rule sortedSettingsAt_foldl_type)
  then show "observableType settings = t" "(l, settings) \<in> set unsortedObservationSettingsMap"
    by (simp_all add: sortedSettingsAt_def)
qed

text \<open>Two settings for the same link ends with different observable types are both kept.\<close>

theorem convertUnsortedToSorted_witness:
  "distinct (map entryKey
     [([(transmitter, (''Earth'', ''Station'')), (receiver, (''Vehicle'', ''''))],
       makeObservationSettings one_way_range []),
      ([(transmitter, (''Earth'', ''Station'')), (receiver, (''Vehicle'', ''''))],
       makeObservationSettings one_way_doppler [])])
   \<and> numberOfEntries (convertUnsortedToSortedObservationSettingsMap
     [([(transmitter, (''Earth'', ''Station'')), (receiver, (''Vehicle'', ''''))],
       makeObservationSettings one_way_range []),
      ([(transmitter, (''Earth'', ''Station'')), (receiver, (''Vehicle'', ''''))],
       makeObservationSettings one_way_doppler [])]) = 2
   \<and> sortedSettingsAt (convertUnsortedToSortedObservationSettingsMap
     [([(transmitter, (''Earth'', ''Station'')), (receiver, (''Vehicle'', ''''))],
       makeObservationSettings one_way_range []),
      ([(transmitter, (''Earth'', ''Station'')), (receiver, (''Vehicle'', ''''))],
       makeObservationSettings one_way_doppler [])])
      one_way_doppler [(transmitter, (''Earth'', ''Station'')), (receiver, (''Vehicle'', ''''))]
     = Some (makeObservationSettings one_way_doppler [])"
proof -
  let ?unsorted =
    "[([(transmitter, (''Earth'', ''Station'')), (receiver, (''Vehicle'', ''''))],
       makeObservationSettings one_way_range []),
      ([(transmitter, (''Earth'', ''Station'')), (receiver, (''Vehicle'', ''''))],
       makeObservationSettings one_way_doppler [])]"
  have d: "distinct (map entryKey ?unsorted)"
    by (simp add: entryKey_def makeObservationSettings_def)
  from convertUnsortedToSorted_distinct_keys [OF d] d show ?thesis
    by (simp add: makeObservationSettings_def)
qed

text \<open>
  Claim C3 as stated fails: of two one-way range settings for the same link ends, the map
  of maps keeps one.
\<close>

theorem convertUnsortedToSorted_counterexample:
  "numberOfEntries (convertUnsortedToSortedObservationSettingsMap
     [([(transmitter, (''Earth'', ''Station'')), (receiver, (''Vehicle'', ''''))],
       makeObservationSettings one_way_range []),
      ([(transmitter, (''Earth'', ''Station'')), (receiver, (''Vehicle'', ''''))],
       makeObservationSettings one_way_range [LightTimeCorrectionSettings 0])]) = 1
   \<and> length
     [([(transmitter, (''Earth'', ''Station'')), (receiver, (''Vehicle'', ''''))],
       makeObservationSettings one_way_range []),
      ([(transmitter, (''Earth'', ''Station'')), (receiver, (''Vehicle'', ''''))],
       makeObservationSettings one_way_range [LightTimeCorrectionSettings 0])] = 2"
  by (simp add: convertUnsortedToSortedObservationSettingsMap_def
      insertSortedObservationSettings_def numberOfEntries_def makeObservationSettings_def)

subsection \<open>Proper time rate calculators\<close>

text \<open>
  Claim C9, amended. For direct first-order settings of the matching class, a target link
  end that is among the link ends, link ends that contain both the transmitter and the
  receiver, and a central body with a gravity field model, the build fails with
  \<open>Unsupported\<close> exactly when the central body with empty reference point is the
  transmitter or the receiver link end, and otherwise returns the calculator. If the
  central body is in the environment without a gravity field model, the build fails with
  \<open>MissingEnvironmentModel\<close>.
\<close>

theorem createProperTimeCalculator_direct_first_order:
  "(map_of linkEnds linkEndForCalculator \<noteq> None
      \<and> map_of bodyMap centralBodyName = Some centralBody
      \<and> getGravityFieldModel centralBody \<noteq> None
      \<and> map_of linkEnds transmitter = Some transmitterId
      \<and> map_of linkEnds receiver = Some receiverId
    \<longrightarrow>
      createOneWayDopplerProperTimeCalculator
        (Some (DirectFirstOrderDopplerProperTimeRateSettings
                 direct_first_order_doppler_proper_time_rate centralBodyName))
        linkEnds bodyMap linkEndForCalculator
      = (if transmitterId = (centralBodyName, []) \<or> receiverId = (centralBodyName, [])
         then Inl Unsupported
         else Inr (DirectFirstOrderDopplerProperTimeRateInterface linkEndForCalculator
                     centralBodyName unidentified_link_end)))
   \<and> (map_of linkEnds linkEndForCalculator \<noteq> None
      \<and> map_of bodyMap centralBodyName = Some centralBody
      \<and> getGravityFieldModel centralBody = None
    \<longrightarrow>
      createOneWayDopplerProperTimeCalculator
        (Some (DirectFirstOrderDopplerProperTimeRateSettings
                 direct_first_order_doppler_proper_time_rate centralBodyName))
        linkEnds bodyMap linkEndForCalculator
      = Inl MissingEnvironmentModel)"
  by (auto simp add: createOneWayDopplerProperTimeCalculator_def Let_def)

text \<open>
  The three outcomes for a receiver-side calculator: success, a central body that is the
  transmitter, and a central body without gravity field.
\<close>

theorem createProperTimeCalculator_witness:
  "createOneWayDopplerProperTimeCalculator
     (Some (DirectFirstOrderDopplerProperTimeRateSettings
              direct_first_order_doppler_proper_time_rate ''Earth''))
     [(transmitter, (''Mars'', ''Station'')), (receiver, (''Vehicle'', ''''))]
     [(''Earth'', emptyBody\<lparr>getGravityFieldModel := Some PointMassGravityField\<rparr>)]
     receiver
   = Inr (DirectFirstOrderDopplerProperTimeRateInterface receiver ''Earth''
            unidentified_link_end)
   \<and> createOneWayDopplerProperTimeCalculator
     (Some (DirectFirstOrderDopplerProperTimeRateSettings
              direct_first_order_doppler_proper_time_rate ''Earth''))
     [(transmitter, (''Earth'', '''')), (receiver, (''Vehicle'', ''''))]
     [(''Earth'', emptyBody\<lparr>getGravityFieldModel := Some PointMassGravityField\<rparr>)]
     receiver
   = Inl Unsupported
   \<and> createOneWayDopplerProperTimeCalculator
     (Some (DirectFirstOrderDopplerProperTimeRateSettings
              direct_first_order_doppler_proper_time_rate ''Earth''))
     [(transmitter, (''Mars'', ''Station'')), (receiver, (''Vehicle'', ''''))]
     [(''Earth'', emptyBody)]
     receiver
   = Inl MissingEnvironmentModel"
  using createProperTimeCalculator_direct_first_order
    [of "[(transmitter, (''Mars'', ''Station'')), (receiver, (''Vehicle'', ''''))]" receiver
        "[(''Earth'', emptyBody\<lparr>getGravityFieldModel := Some PointMassGravityField\<rparr>)]"
        "''Earth''" "emptyBody\<lparr>getGravityFieldModel := Some PointMassGravityField\<rparr>"
        "(''Mars'', ''Station'')" "(''Vehicle'', '''')"]
    createProperTimeCalculator_direct_first_order
    [of "[(transmitter, (''Earth'', '''')), (receiver, (''Vehicle'', ''''))]" receiver
        "[(''Earth'', emptyBody\<lparr>getGravityFieldModel := Some PointMassGravityField\<rparr>)]"
        "''Earth''" "emptyBody\<lparr>getGravityFieldModel := Some PointMassGravityField\<rparr>"
        "(''Earth'', '''')" "(''Vehicle'', '''')"]
    createProperTimeCalculator_direct_first_order
    [of "[(transmitter, (''Mars'', ''Station'')), (receiver, (''Vehicle'', ''''))]" receiver
        "[(''Earth'', emptyBody)]"
        "''Earth''" "emptyBody"
        "(''Mars'', ''Station'')" "(''Vehicle'', '''')"]
  by (simp add: transmitter_def receiver_def emptyBody_def)

text \<open>
  Claim C9 as stated fails: when the link ends hold the target link end but no receiver,
  \<open>linkEnds.at( receiver )\<close> throws although the central body is none of the link ends.
\<close>

theorem createProperTimeCalculator_counterexample:
  "createOneWayDopplerProperTimeCalculator
     (Some (DirectFirstOrderDopplerProperTimeRateSettings
              direct_first_order_doppler_proper_time_rate ''Earth''))
     [(transmitter, (''Vehicle'', ''''))]
     [(''Earth'', emptyBody\<lparr>getGravityFieldModel := Some PointMassGravityField\<rparr>)]
     transmitter
   = Inl OutOfRange"
  by (simp add: createOneWayDopplerProperTimeCalculator_def emptyBody_def
      transmitter_def receiver_def)

subsection \<open>Observation models of size 1\<close>

text \<open>
  Claim C2 fails on the code: for settings of class \<open>OneWayDopplerObservationSettings\<close>
  whose two proper time rate settings are null, the proper time rate factory is called
  with the null pointer and reads the type tag through it.
\<close>

theorem createObservationModel_one_way_doppler_null_settings:
  "createObservationModel order indices
     [(transmitter, (''Earth'', ''Station'')), (receiver, (''Vehicle'', ''''))]
     (Some \<lparr>observableType = one_way_doppler, lightTimeCorrectionsList = [],
            biasSettings = None, settingsClass = OneWayDopplerSettings None None\<rparr>)
     bodyMap
   = Inl NullPointerDereference"
  by (simp add: createObservationModel.simps transmitter_def receiver_def
      createOptionalObservationBias_def linkEndsAt_def
      createOneWayDopplerProperTimeCalculator_def evaluateBoth_def
      split: ArgumentEvaluationOrder.split)

text \<open>
  For settings of the base class the same build succeeds, and the model has no proper
  time rate calculators.
\<close>

lemma createObservationModel_one_way_doppler_plain_settings:
  "createObservationModel order indices
     [(transmitter, (''Earth'', ''Station'')), (receiver, (''Vehicle'', ''''))]
     (Some (makeObservationSettings one_way_doppler corrections))
     bodyMap
   = Inr (OneWayDopplerModel (OneWayDopplerObservationModel
       (LightTimeCalculator (''Earth'', ''Station'') (''Vehicle'', '''') corrections)
       None None None))"
  by (simp add: createObservationModel.simps transmitter_def receiver_def
      createOptionalObservationBias_def linkEndsAt_def makeObservationSettings_def
      createLightTimeCalculator_def)

lemma createNWayLightTimeCalculators_parent:
  "createNWayLightTimeCalculators linkEnds bodyMap None parentCorrections =
     Inr (map (\<lambda>hop. createLightTimeCalculator (snd (fst hop)) (snd (snd hop)) bodyMap
                        parentCorrections)
            (zip linkEnds (tl linkEnds)))"
proof (induction linkEnds)
  case Nil
  show ?case by simp
next
  case (Cons transmitterEntry rest)
  show ?case
  proof (cases rest)
    case Nil
    then show ?thesis by simp
  next
    case (Cons receiverEntry others)
    with Cons.IH show ?thesis by simp
  qed
qed

lemma checkNWayLinkEnds_ok:
  "(\<forall>entry \<in> set entries.
      fst entry \<noteq> transmitter \<and> fst entry \<noteq> receiver
        \<longrightarrow> map_of linkEnds (fst entry - 1) \<noteq> None)
   \<Longrightarrow> checkNWayLinkEnds linkEnds entries = Inr ()"
  by (induction entries) auto

text \<open>
  Claim C4, amended. For n-way range settings that are not of class
  \<open>NWayRangeObservationSettings\<close>, at least two link ends that pass the chain checks, and
  bias settings that are absent or build, the build returns an n-way range model with one
  light-time calculator for each pair of consecutive link ends, each made with the
  light-time corrections of the settings: one less than there are link ends. For n-way
  range settings and link ends without receiver the build fails with
  \<open>InvalidLinkEndTopology\<close>.
\<close>

theorem createObservationModel_n_way_range:
  "(observableType settings = n_way_range
      \<and> 2 \<le> length linkEnds
      \<and> map_of linkEnds transmitter \<noteq> None
      \<and> map_of linkEnds receiver \<noteq> None
      \<and> (\<forall>entry \<in> set linkEnds.
            fst entry \<noteq> transmitter \<and> fst entry \<noteq> receiver
              \<longrightarrow> map_of linkEnds (fst entry - 1) \<noteq> None)
      \<and> (\<forall>oneWaySettings retransmission.
            settingsClass settings \<noteq> NWayRangeObservationSettings oneWaySettings retransmission)
      \<and> createOptionalObservationBias indices linkEnds n_way_range (biasSettings settings)
            = Inr observationBias
    \<longrightarrow>
      createObservationModel order indices linkEnds (Some settings) bodyMap
        = Inr (NWayRangeObservationModel
                 (map (\<lambda>hop. createLightTimeCalculator (snd (fst hop)) (snd (snd hop)) bodyMap
                                 (lightTimeCorrectionsList settings))
                    (zip linkEnds (tl linkEnds)))
                 None observationBias)
      \<and> length (zip linkEnds (tl linkEnds)) = length linkEnds - 1)
   \<and> (observableType settings = n_way_range \<and> map_of linkEnds receiver = None
    \<longrightarrow> createObservationModel order indices linkEnds (Some settings) bodyMap
          = Inl InvalidLinkEndTopology)"
proof (intro conjI impI)
  assume a: "observableType settings = n_way_range
      \<and> 2 \<le> length linkEnds
      \<and> map_of linkEnds transmitter \<noteq> None
      \<and> map_of linkEnds receiver \<noteq> None
      \<and> (\<forall>entry \<in> set linkEnds.
            fst entry \<noteq> transmitter \<and> fst entry \<noteq> receiver
              \<longrightarrow> map_of linkEnds (fst entry - 1) \<noteq> None)
      \<and> (\<forall>oneWaySettings retransmission.
            settingsClass settings \<noteq> NWayRangeObservationSettings oneWaySettings retransmission)
      \<and> createOptionalObservationBias indices linkEnds n_way_range (biasSettings settings)
            = Inr observationBias"
  then have chain: "checkNWayLinkEnds linkEnds linkEnds = Inr ()"
    by (intro checkNWayLinkEnds_ok) blast
  from a have notNWay: "\<And>oneWaySettings retransmission.
      settingsClass settings \<noteq> NWayRangeObservationSettings oneWaySettings retransmission"
    by blast
  from a chain show "createObservationModel order indices linkEnds (Some settings) bodyMap
        = Inr (NWayRangeObservationModel
                 (map (\<lambda>hop. createLightTimeCalculator (snd (fst hop)) (snd (snd hop)) bodyMap
                                 (lightTimeCorrectionsList settings))
                    (zip linkEnds (tl linkEnds)))
                 None observationBias)"
    by (cases "settingsClass settings")
       (auto simp add: createObservationModel.simps createNWayLightTimeCalculators_parent
          notNWay)
next
  show "length (zip linkEnds (tl linkEnds)) = length linkEnds - 1"
    by simp
next
  assume "observableType settings = n_way_range \<and> map_of linkEnds receiver = None"
  then show "createObservationModel order indices linkEnds (Some settings) bodyMap
          = Inl InvalidLinkEndTopology"
    by (simp add: createObservationModel.simps)
qed

text \<open>
  Transmitter, two reflectors and receiver give three light-time calculators, each with
  the corrections of the settings; without the receiver the build fails.
\<close>

theorem createObservationModel_n_way_range_witness:
  "createObservationModel LeftToRight
     (\<lambda>observableType linkEndType numberOfLinkEnds. Inr [0])
     [(transmitter, (''Earth'', ''Station'')), (reflector1, (''Vehicle'', '''')),
      (reflector2, (''Moon'', ''Reflector'')), (receiver, (''Earth'', ''Station''))]
     (Some (makeObservationSettings n_way_range [LightTimeCorrectionSettings 0]))
     []
   = Inr (NWayRangeObservationModel
       [LightTimeCalculator (''Earth'', ''Station'') (''Vehicle'', '''')
          [LightTimeCorrectionSettings 0],
        LightTimeCalculator (''Vehicle'', '''') (''Moon'', ''Reflector'')
          [LightTimeCorrectionSettings 0],
        LightTimeCalculator (''Moon'', ''Reflector'') (''Earth'', ''Station'')
          [LightTimeCorrectionSettings 0]]
       None None)
   \<and> createObservationModel LeftToRight
     (\<lambda>observableType linkEndType numberOfLinkEnds. Inr [0])
     [(transmitter, (''Earth'', ''Station'')), (reflector1, (''Vehicle'', '''')),
      (reflector2, (''Moon'', ''Reflector''))]
     (Some (makeObservationSettings n_way_range [LightTimeCorrectionSettings 0]))
     []
   = Inl InvalidLinkEndTopology"
  using createObservationModel_n_way_range
    [of "makeObservationSettings n_way_range [LightTimeCorrectionSettings 0]"
        "[(transmitter, (''Earth'', ''Station'')), (reflector1, (''Vehicle'', '''')),
          (reflector2, (''Moon'', ''Reflector'')), (receiver, (''Earth'', ''Station''))]"
        "(\<lambda>observableType linkEndType numberOfLinkEnds. Inr [0])" None LeftToRight "[]"]
    createObservationModel_n_way_range
    [of "makeObservationSettings n_way_range [LightTimeCorrectionSettings 0]"
        "[(transmitter, (''Earth'', ''Station'')), (reflector1, (''Vehicle'', '''')),
          (reflector2, (''Moon'', ''Reflector''))]"
        "(\<lambda>observableType linkEndType numberOfLinkEnds. Inr [0])" None LeftToRight "[]"]
  by (simp add: makeObservationSettings_def transmitter_def receiver_def reflector1_def
      reflector2_def createOptionalObservationBias_def createLightTimeCalculator_def)

text \<open>
  Claim C4 as stated fails: with a valid chain and settings of the base class, a constant
  bias of two entries makes the build fail.
\<close>

theorem createObservationModel_n_way_range_counterexample:
  "createObservationModel LeftToRight
     (\<lambda>observableType linkEndType numberOfLinkEnds. Inr [0])
     [(transmitter, (''Earth'', ''Station'')), (receiver, (''Vehicle'', ''''))]
     (Some \<lparr>observableType = n_way_range, lightTimeCorrectionsList = [],
            biasSettings = Some (ConstantObservationBiasSettings constant_absolute_bias
                                   [0, 0] True),
            settingsClass = PlainObservationSettings\<rparr>)
     []
   = Inl DimensionMismatch"
  by (simp add: createObservationModel.simps transmitter_def receiver_def
      createOptionalObservationBias_def)

end
